theory Spec2Isabelle
  imports Complex_Main
begin

section \<open>Floating-point values of a pandas column\<close>

text \<open>
  A cell of a derived column is a float64. The model keeps the three special values
  apart and reads a finite value as the real number it stands for. The element-wise
  operations below follow IEEE 754 on the special values, which is what numpy does for
  the arithmetic of the source; on finite values they give the exact result, so the
  rounding and the overflow of a single operation are not modelled, and the two signed
  zeros are one value (a division by zero takes the sign of the numerator). The three
  pandas aggregates whose rounding decides a comparison of the engine (rolling mean,
  mean, standard deviation) are not computed by the model at all: their float64
  results are a parameter, see \<open>float64_lib\<close>.
\<close>

datatype fl = NaN | NInf | Fin real | PInf

fun fneg :: "fl \<Rightarrow> fl" where
  "fneg NaN = NaN"
| "fneg NInf = PInf"
| "fneg (Fin a) = Fin (- a)"
| "fneg PInf = NInf"

fun fadd :: "fl \<Rightarrow> fl \<Rightarrow> fl" where
  "fadd NaN y = NaN"
| "fadd x NaN = NaN"
| "fadd (Fin a) (Fin b) = Fin (a + b)"
| "fadd PInf NInf = NaN"
| "fadd NInf PInf = NaN"
| "fadd PInf y = PInf"
| "fadd x PInf = PInf"
| "fadd NInf y = NInf"
| "fadd x NInf = NInf"

definition fsub :: "fl \<Rightarrow> fl \<Rightarrow> fl" where
  "fsub x y = fadd x (fneg y)"

fun fmul :: "fl \<Rightarrow> fl \<Rightarrow> fl" where
  "fmul NaN y = NaN"
| "fmul x NaN = NaN"
| "fmul (Fin a) (Fin b) = Fin (a * b)"
| "fmul (Fin a) PInf = (if a = 0 then NaN else if 0 < a then PInf else NInf)"
| "fmul (Fin a) NInf = (if a = 0 then NaN else if 0 < a then NInf else PInf)"
| "fmul PInf (Fin b) = (if b = 0 then NaN else if 0 < b then PInf else NInf)"
| "fmul NInf (Fin b) = (if b = 0 then NaN else if 0 < b then NInf else PInf)"
| "fmul PInf PInf = PInf"
| "fmul NInf NInf = PInf"
| "fmul PInf NInf = NInf"
| "fmul NInf PInf = NInf"

fun fdiv :: "fl \<Rightarrow> fl \<Rightarrow> fl" where
  "fdiv NaN y = NaN"
| "fdiv x NaN = NaN"
| "fdiv (Fin a) (Fin b) =
     (if b \<noteq> 0 then Fin (a / b)
      else if a = 0 then NaN else if 0 < a then PInf else NInf)"
| "fdiv (Fin a) y = Fin 0"
| "fdiv PInf (Fin b) = (if 0 \<le> b then PInf else NInf)"
| "fdiv NInf (Fin b) = (if 0 \<le> b then NInf else PInf)"
| "fdiv x y = NaN"

fun fabs :: "fl \<Rightarrow> fl" where
  "fabs NaN = NaN"
| "fabs (Fin a) = Fin \<bar>a\<bar>"
| "fabs x = PInf"

fun fsqrt :: "fl \<Rightarrow> fl" where
  "fsqrt (Fin a) = (if 0 \<le> a then Fin (sqrt a) else NaN)"
| "fsqrt PInf = PInf"
| "fsqrt x = NaN"

text \<open>Comparisons: every comparison with NaN is false.\<close>

fun flt :: "fl \<Rightarrow> fl \<Rightarrow> bool" where
  "flt NaN y = False"
| "flt x NaN = False"
| "flt (Fin a) (Fin b) = (a < b)"
| "flt x NInf = False"
| "flt PInf y = False"
| "flt x y = True"

definition feq :: "fl \<Rightarrow> fl \<Rightarrow> bool" where
  "feq x y = (x = y \<and> x \<noteq> NaN)"

definition fle :: "fl \<Rightarrow> fl \<Rightarrow> bool" where
  "fle x y = (flt x y \<or> feq x y)"

section \<open>The pandas operations the engine uses\<close>

text \<open>\<open>s.shift(1)\<close>: every value moves one row down, the first row is NaN.\<close>

definition shift1 :: "fl list \<Rightarrow> fl list" where
  "shift1 xs = (if xs = [] then [] else NaN # butlast xs)"

text \<open>\<open>s.fillna(v)\<close>.\<close>

definition fillna :: "fl \<Rightarrow> fl list \<Rightarrow> fl list" where
  "fillna v xs = map (\<lambda>x. if x = NaN then v else x) xs"

text \<open>\<open>s.dropna()\<close>: the infinities stay.\<close>

definition dropna :: "fl list \<Rightarrow> fl list" where
  "dropna xs = filter (\<lambda>x. x \<noteq> NaN) xs"

text \<open>\<open>s.diff()\<close>: the difference with the row before, NaN in the first row.\<close>

definition diff :: "fl list \<Rightarrow> fl list" where
  "diff xs = map2 fsub xs (shift1 xs)"

text \<open>
  \<open>s.pct_change()\<close> of a column of finite prices: \<open>s / s.shift(1) - 1\<close>. A price of 0
  in the row before gives an infinity or NaN.
\<close>

definition pct_change :: "real list \<Rightarrow> fl list" where
  "pct_change xs =
     map2 (\<lambda>c p. fsub (fdiv c p) (Fin 1)) (map Fin xs) (shift1 (map Fin xs))"

text \<open>
  \<open>s.cumprod()\<close>, which skips NaN: a NaN row stays NaN and does not enter the running
  product; the product starts at 1.
\<close>

fun cumprod_from :: "fl \<Rightarrow> fl list \<Rightarrow> fl list" where
  "cumprod_from acc [] = []"
| "cumprod_from acc (x # xs) =
     (if x = NaN then NaN # cumprod_from acc xs
      else fmul acc x # cumprod_from (fmul acc x) xs)"

definition cumprod :: "fl list \<Rightarrow> fl list" where
  "cumprod xs = cumprod_from (Fin 1) xs"

text \<open>
  The float64 results of three pandas aggregates. They are library code, and which
  float64 comes out depends on the order and the rounding of the library's additions,
  so the model takes the results as given and assumes nothing about their values:
  \<^item> \<open>rolling_mean_f64 w xs\<close> is the value that
    \<open>s.rolling(window=w, min_periods=w).mean()\<close> holds in its last row when the column
    \<open>s\<close> holds the prices \<open>xs\<close> (at least \<open>w\<close> of them). pandas keeps a running sum
    from row to row, so the value may depend on every row up to that one, and on none
    after it;
  \<^item> \<open>mean_f64 ys\<close> and \<open>std_f64 ys\<close> are \<open>s.mean()\<close> and \<open>s.std()\<close> (sample
    standard deviation) of a column whose non-missing values are \<open>ys\<close>.
\<close>

record float64_lib =
  rolling_mean_f64 :: "nat \<Rightarrow> real list \<Rightarrow> fl"
  mean_f64 :: "fl list \<Rightarrow> fl"
  std_f64 :: "fl list \<Rightarrow> fl"

text \<open>
  \<open>s.rolling(window=w, min_periods=w).mean()\<close> of a column of finite prices: NaN
  while fewer than \<open>w\<close> rows are there, from then on the float64 the library computes
  from the rows seen so far.
\<close>

definition rolling_mean :: "float64_lib \<Rightarrow> nat \<Rightarrow> real list \<Rightarrow> fl list" where
  "rolling_mean lib w xs =
     map (\<lambda>i. if 0 < w \<and> w \<le> i + 1
              then rolling_mean_f64 lib w (take (Suc i) xs)
              else NaN) [0..<length xs]"

text \<open>
  \<open>s.expanding().max()\<close>: the largest value seen so far. The window functions of
  pandas read an infinity as NaN, and skip NaN; the result is NaN until a first finite
  value has been seen.
\<close>

fun expanding_max_from :: "real option \<Rightarrow> fl list \<Rightarrow> fl list" where
  "expanding_max_from m [] = []"
| "expanding_max_from m (Fin a # xs) =
     (let m' = (case m of None \<Rightarrow> a | Some b \<Rightarrow> max a b)
      in Fin m' # expanding_max_from (Some m') xs)"
| "expanding_max_from m (x # xs) =
     (case m of None \<Rightarrow> NaN | Some b \<Rightarrow> Fin b) # expanding_max_from m xs"

definition expanding_max :: "fl list \<Rightarrow> fl list" where
  "expanding_max xs = expanding_max_from None xs"

text \<open>\<open>s.min()\<close>, which skips NaN; NaN when no value is left.\<close>

definition fmin :: "fl \<Rightarrow> fl \<Rightarrow> fl" where
  "fmin x y = (if flt y x then y else x)"

definition series_min :: "fl list \<Rightarrow> fl" where
  "series_min xs = (case dropna xs of [] \<Rightarrow> NaN | y # ys \<Rightarrow> foldl fmin y ys)"

text \<open>
  \<open>s.mean()\<close> and \<open>s.std()\<close>: both skip NaN; the mean of no value is NaN, and so is
  the sample standard deviation of fewer than two values. Otherwise the result is the
  float64 the library computes.
\<close>

definition series_mean :: "float64_lib \<Rightarrow> fl list \<Rightarrow> fl" where
  "series_mean lib xs = (let ys = dropna xs in if ys = [] then NaN else mean_f64 lib ys)"

definition series_std :: "float64_lib \<Rightarrow> fl list \<Rightarrow> fl" where
  "series_std lib xs = (let ys = dropna xs in if length ys \<le> 1 then NaN else std_f64 lib ys)"

section \<open>Data model\<close>

text \<open>
  The names of the columns the engine adds to a price table. The two moving-average
  columns are named after their window, \<open>MA_<window>\<close>.
\<close>

datatype colname =
    MA int | Signal | Position
  | Returns | Position_Lagged | Strategy_Returns | Position_Change | Commission_Cost
  | Strategy_Returns_Net | Cumulative_Returns | Portfolio_Value
  | BuyHold_Returns | BuyHold_Cumulative | BuyHold_Value

text \<open>
  A price table (a DataFrame): the closing prices, one finite number per trading day,
  and the derived columns present so far, each as long as the table. The integer
  columns Signal and Position hold their values as floats. The other price columns
  (open, high, low, volume) are never read by the engine and are left out.
\<close>

record frame =
  Close :: "real list"
  cols :: "colname \<rightharpoonup> fl list"

definition nrows :: "frame \<Rightarrow> nat" where
  "nrows data = length (Close data)"

definition set_col :: "frame \<Rightarrow> colname \<Rightarrow> fl list \<Rightarrow> frame" where
  "set_col data c v = data\<lparr>cols := (cols data)(c \<mapsto> v)\<rparr>"

datatype error = ValueError | IndexError | KeyError

text \<open>\<open>data[c]\<close> raises KeyError when the column is missing.\<close>

definition get_col :: "frame \<Rightarrow> colname \<Rightarrow> error + fl list" where
  "get_col data c = (case cols data c of None \<Rightarrow> Inl KeyError | Some v \<Rightarrow> Inr v)"

text \<open>\<open>s.iloc[-1]\<close> raises IndexError on an empty column.\<close>

definition iloc_last :: "fl list \<Rightarrow> error + fl" where
  "iloc_last xs = (if xs = [] then Inl IndexError else Inr (last xs))"

text \<open>An exception ends the computation; \<open>bind_err\<close> runs the rest after a success.\<close>

definition bind_err :: "error + 'a \<Rightarrow> ('a \<Rightarrow> error + 'b) \<Rightarrow> error + 'b" where
  "bind_err r f = (case r of Inl e \<Rightarrow> Inl e | Inr x \<Rightarrow> f x)"

section \<open>Moving-average crossover strategy\<close>

text \<open>
  The strategy object: its two windows. Its display name and the logger are not
  modelled.
\<close>

record strategy =
  short_window :: int
  long_window :: int

text \<open>The constructor; the two checks in the order of the source.\<close>

definition MovingAverageStrategy_init :: "int \<Rightarrow> int \<Rightarrow> error + strategy" where
  "MovingAverageStrategy_init short long =
     (if short \<ge> long then Inl ValueError
      else if short < 2 then Inl ValueError
      else Inr \<lparr>short_window = short, long_window = long\<rparr>)"

text \<open>Element-wise comparisons and conjunction of columns, as boolean masks.\<close>

definition gt_col :: "fl list \<Rightarrow> fl list \<Rightarrow> bool list" where
  "gt_col xs ys = map2 (\<lambda>x y. flt y x) xs ys"

definition lt_col :: "fl list \<Rightarrow> fl list \<Rightarrow> bool list" where
  "lt_col xs ys = map2 (\<lambda>x y. flt x y) xs ys"

definition le_col :: "fl list \<Rightarrow> fl list \<Rightarrow> bool list" where
  "le_col xs ys = map2 (\<lambda>x y. fle x y) xs ys"

definition ge_col :: "fl list \<Rightarrow> fl list \<Rightarrow> bool list" where
  "ge_col xs ys = map2 (\<lambda>x y. fle y x) xs ys"

definition and_col :: "bool list \<Rightarrow> bool list \<Rightarrow> bool list" where
  "and_col bs cs = map2 (\<lambda>b c. b \<and> c) bs cs"

text \<open>\<open>data.loc[mask, c] = v\<close>: the rows where the mask holds take the value.\<close>

definition loc_assign :: "bool list \<Rightarrow> fl list \<Rightarrow> fl \<Rightarrow> fl list" where
  "loc_assign msk xs v = map2 (\<lambda>b x. if b then v else x) msk xs"

text \<open>
  The loop that turns signals into positions. \<open>cur\<close> is \<open>current_position\<close>; the
  result lists what the loop writes into the Position column, row by row.
\<close>

fun position_loop :: "real \<Rightarrow> fl list \<Rightarrow> fl list" where
  "position_loop cur [] = []"
| "position_loop cur (s # ss) =
     (let cur' = (if s = Fin 1 then 1 else if s = Fin (- 1) then 0 else cur)
      in Fin cur' # position_loop cur' ss)"

text \<open>
  \<open>generate_signals\<close> writes its columns into the table it is given and returns that
  table; the model returns the table's new content.
\<close>

definition generate_signals :: "float64_lib \<Rightarrow> strategy \<Rightarrow> frame \<Rightarrow> frame" where
  "generate_signals lib self data =
     (if int (nrows data) < long_window self then
        set_col (set_col data Signal (replicate (nrows data) (Fin 0)))
          Position (replicate (nrows data) (Fin 0))
      else
        let ma_short = rolling_mean lib (nat (short_window self)) (Close data);
            ma_long = rolling_mean lib (nat (long_window self)) (Close data);
            data = set_col data (MA (short_window self)) ma_short;
            data = set_col data (MA (long_window self)) ma_long;
            signal = replicate (nrows data) (Fin 0);
            golden_cross =
              and_col (gt_col ma_short ma_long) (le_col (shift1 ma_short) (shift1 ma_long));
            signal = loc_assign golden_cross signal (Fin 1);
            death_cross =
              and_col (lt_col ma_short ma_long) (ge_col (shift1 ma_short) (shift1 ma_long));
            signal = loc_assign death_cross signal (Fin (- 1));
            data = set_col data Signal signal;
            position = position_loop 0 signal
        in set_col data Position position)"

section \<open>Backtest engine\<close>

text \<open>
  \<open>_calculate_returns\<close> adds the return columns to the table it is given, in place,
  and returns it. Only the Position column can be missing (a strategy that did not
  write it); every other column read was written just before.
\<close>

definition calculate_returns :: "frame \<Rightarrow> real \<Rightarrow> real \<Rightarrow> error + frame" where
  "calculate_returns data initial_capital commission =
     (let returns = pct_change (Close data);
          data = set_col data Returns returns
      in bind_err (get_col data Position) (\<lambda>position.
         let position_lagged = fillna (Fin 0) (shift1 position);
             data = set_col data Position_Lagged position_lagged;
             strategy_returns = map2 fmul position_lagged returns;
             data = set_col data Strategy_Returns strategy_returns;
             position_change = map fabs (diff position_lagged);
             data = set_col data Position_Change position_change;
             commission_cost = map (\<lambda>x. fmul x (Fin commission)) position_change;
             data = set_col data Commission_Cost commission_cost;
             strategy_returns_net = map2 fsub strategy_returns commission_cost;
             data = set_col data Strategy_Returns_Net strategy_returns_net;
             cumulative_returns = cumprod (map (fadd (Fin 1)) strategy_returns_net);
             data = set_col data Cumulative_Returns cumulative_returns;
             data = set_col data Portfolio_Value
                      (map (fmul (Fin initial_capital)) cumulative_returns);
             buyhold_returns = fillna (Fin 0) returns;
             data = set_col data BuyHold_Returns buyhold_returns;
             buyhold_cumulative = cumprod (map (fadd (Fin 1)) buyhold_returns);
             data = set_col data BuyHold_Cumulative buyhold_cumulative;
             data = set_col data BuyHold_Value
                      (map (fmul (Fin initial_capital)) buyhold_cumulative)
         in Inr data))"

definition calculate_max_drawdown :: "fl list \<Rightarrow> fl" where
  "calculate_max_drawdown equity_curve =
     (let peak = expanding_max equity_curve;
          drawdown = map2 (\<lambda>e p. fdiv (fsub e p) p) equity_curve peak
      in series_min drawdown)"

definition calculate_sharpe_ratio :: "float64_lib \<Rightarrow> fl list \<Rightarrow> real \<Rightarrow> fl" where
  "calculate_sharpe_ratio lib returns risk_free_rate =
     (if feq (series_std lib returns) (Fin 0) then Fin 0
      else
        let excess_return =
              fsub (fmul (series_mean lib returns) (Fin 252)) (Fin risk_free_rate);
            volatility = fmul (series_std lib returns) (Fin (sqrt 252))
        in fdiv excess_return volatility)"

record metrics =
  total_return :: fl
  buyhold_return :: fl
  excess_return :: fl
  volatility :: fl
  sharpe_ratio :: fl
  max_drawdown :: fl
  win_rate :: fl
  total_trades :: nat

text \<open>
  \<open>_calculate_metrics\<close>; the Sharpe ratio is computed with the default risk-free
  rate of 0.02.
\<close>

definition calculate_metrics :: "float64_lib \<Rightarrow> frame \<Rightarrow> frame \<Rightarrow> error + metrics" where
  "calculate_metrics lib data results =
     bind_err (get_col results Strategy_Returns_Net) (\<lambda>net.
     bind_err (get_col results BuyHold_Returns) (\<lambda>bh.
     bind_err (get_col results Cumulative_Returns) (\<lambda>cum.
     bind_err (iloc_last cum) (\<lambda>cum_last.
     bind_err (get_col results BuyHold_Cumulative) (\<lambda>bh_cum.
     bind_err (iloc_last bh_cum) (\<lambda>bh_last.
     bind_err (get_col results Portfolio_Value) (\<lambda>portfolio_value.
       let strategy_returns = dropna net;
           buyhold_returns = dropna bh;
           total_return = fsub cum_last (Fin 1);
           buyhold_return = fsub bh_last (Fin 1);
           volatility = fmul (series_std lib strategy_returns) (Fin (sqrt 252));
           max_drawdown = calculate_max_drawdown portfolio_value;
           sharpe_ratio = calculate_sharpe_ratio lib strategy_returns (2 / 100);
           winning_trades = length (filter (\<lambda>x. flt (Fin 0) x) strategy_returns);
           total_trades = length (filter (\<lambda>x. \<not> feq x (Fin 0)) strategy_returns);
           win_rate = (if total_trades > 0
                       then Fin (real winning_trades / real total_trades) else Fin 0)
       in Inr \<lparr>total_return = total_return, buyhold_return = buyhold_return,
               excess_return = fsub total_return buyhold_return,
               volatility = volatility, sharpe_ratio = sharpe_ratio,
               max_drawdown = max_drawdown, win_rate = win_rate,
               total_trades = total_trades\<rparr>)))))))"

text \<open>
  The result of a backtest. Its entries \<open>data\<close> and \<open>equity_curve\<close> are one and the
  same table in the source (the copy that received all the columns), so the model
  keeps it once.
\<close>

record backtest_results =
  equity_curve :: frame
  metrics_of :: metrics
  initial_capital_of :: real
  commission_of :: real

text \<open>
  \<open>backtest\<close> on the content of the caller's table: the signals are written into a
  copy, which then receives the return columns.
\<close>

definition backtest ::
  "float64_lib \<Rightarrow> strategy \<Rightarrow> frame \<Rightarrow> real \<Rightarrow> real \<Rightarrow> error + backtest_results" where
  "backtest lib self data initial_capital commission =
     (let data_with_signals = generate_signals lib self data
      in bind_err (calculate_returns data_with_signals initial_capital commission) (\<lambda>results.
         bind_err (calculate_metrics lib results results) (\<lambda>metrics.
           Inr \<lparr>equity_curve = results, metrics_of = metrics,
                initial_capital_of = initial_capital, commission_of = commission\<rparr>)))"

section \<open>Tables as objects: who sees a mutation\<close>

text \<open>
  A DataFrame is an object: two names can denote the same table, and a column written
  through one is seen through the other. The store maps the address of every table to
  its content; the addresses below \<open>next_free\<close> are in use.
\<close>

record store =
  heap :: "nat \<Rightarrow> frame"
  next_free :: nat

text \<open>\<open>data.copy()\<close>: a new table with the same content.\<close>

definition frame_copy :: "nat \<Rightarrow> store \<Rightarrow> nat \<times> store" where
  "frame_copy a s =
     (next_free s, s\<lparr>heap := (heap s)(next_free s := heap s a), next_free := Suc (next_free s)\<rparr>)"

text \<open>
  \<open>generate_signals(data)\<close> on the table at address \<open>a\<close>: the columns are written
  into that table, and the same table is returned.
\<close>

definition generate_signals_obj ::
  "float64_lib \<Rightarrow> strategy \<Rightarrow> nat \<Rightarrow> store \<Rightarrow> nat \<times> store" where
  "generate_signals_obj lib self a s =
     (a, s\<lparr>heap := (heap s)(a := generate_signals lib self (heap s a))\<rparr>)"

text \<open>
  The result dictionary of \<open>backtest\<close>, with the tables as addresses: \<open>data\<close> and
  \<open>equity_curve\<close> denote the same table.
\<close>

record backtest_refs =
  data_ref :: nat
  equity_curve_ref :: nat
  metrics_ref :: metrics

text \<open>
  \<open>backtest(data)\<close> on the table at address \<open>a\<close>: \<open>generate_signals\<close> receives
  \<open>data.copy()\<close>, and \<open>_calculate_returns\<close> writes into the table it returned. The
  store is returned also when an exception ends the call.
\<close>

definition backtest_obj ::
  "float64_lib \<Rightarrow> strategy \<Rightarrow> nat \<Rightarrow> real \<Rightarrow> real \<Rightarrow> store
     \<Rightarrow> (error + backtest_refs) \<times> store" where
  "backtest_obj lib self a initial_capital commission s =
     (let (c, s1) = frame_copy a s;
          (d, s2) = generate_signals_obj lib self c s1
      in case calculate_returns (heap s2 d) initial_capital commission of
           Inl e \<Rightarrow> (Inl e, s2)
         | Inr results \<Rightarrow>
             let s3 = s2\<lparr>heap := (heap s2)(d := results)\<rparr>
             in case calculate_metrics lib (heap s3 d) (heap s3 d) of
                  Inl e \<Rightarrow> (Inl e, s3)
                | Inr m \<Rightarrow>
                    (Inr \<lparr>data_ref = d, equity_curve_ref = d, metrics_ref = m\<rparr>, s3))"

section \<open>Vocabulary of the statements\<close>

text \<open>A column of a table by name (empty when the table has no such column).\<close>

definition col_of :: "frame \<Rightarrow> colname \<Rightarrow> fl list" where
  "col_of data c = (case cols data c of None \<Rightarrow> [] | Some v \<Rightarrow> v)"

text \<open>
  A moving average over \<open>w\<close> rows is undefined (NaN) on the first \<open>w - 1\<close> rows;
  \<open>ma_defined w i\<close> says that row \<open>i\<close> is past them.
\<close>

definition ma_defined :: "int \<Rightarrow> nat \<Rightarrow> bool" where
  "ma_defined w i = (w \<le> int i + 1)"

text \<open>
  Golden cross and death cross at row \<open>i\<close> in the words of the specification, read on
  the two moving-average columns as they were computed: both averages defined at
  \<open>i - 1\<close> and at \<open>i\<close>, strict inequality at \<open>i\<close>, the opposite weak inequality at
  \<open>i - 1\<close>.
\<close>

definition golden_at :: "fl list \<Rightarrow> fl list \<Rightarrow> nat \<Rightarrow> bool" where
  "golden_at ma_short ma_long i =
     (1 \<le> i \<and> ma_short ! (i - 1) \<noteq> NaN \<and> ma_long ! (i - 1) \<noteq> NaN
      \<and> ma_short ! i \<noteq> NaN \<and> ma_long ! i \<noteq> NaN
      \<and> flt (ma_long ! i) (ma_short ! i)
      \<and> fle (ma_short ! (i - 1)) (ma_long ! (i - 1)))"

definition death_at :: "fl list \<Rightarrow> fl list \<Rightarrow> nat \<Rightarrow> bool" where
  "death_at ma_short ma_long i =
     (1 \<le> i \<and> ma_short ! (i - 1) \<noteq> NaN \<and> ma_long ! (i - 1) \<noteq> NaN
      \<and> ma_short ! i \<noteq> NaN \<and> ma_long ! i \<noteq> NaN
      \<and> flt (ma_short ! i) (ma_long ! i)
      \<and> fle (ma_long ! (i - 1)) (ma_short ! (i - 1)))"

text \<open>
  One instance of the library results, used to show examples: the aggregates without
  rounding. The examples below take small integer prices and the windows 2 and 4, so
  every sum and every quotient of their rolling means is itself a float64, and the
  rolling means shown are the float64 values; no example shows a mean or a standard
  deviation of this instance. No theorem depends on the instance: every theorem is
  stated for arbitrary library results \<open>lib\<close>.
\<close>

definition fsum :: "fl list \<Rightarrow> fl" where
  "fsum xs = foldl fadd (Fin 0) xs"

definition exact_lib :: float64_lib where
  "exact_lib =
     \<lparr>rolling_mean_f64 = (\<lambda>w xs. Fin (sum_list (drop (length xs - w) xs) / real w)),
      mean_f64 = (\<lambda>ys. fdiv (fsum ys) (Fin (real (length ys)))),
      std_f64 = (\<lambda>ys.
        let m = fdiv (fsum ys) (Fin (real (length ys)));
            sq = map (\<lambda>y. fmul (fsub y m) (fsub y m)) ys
        in fsqrt (fdiv (fsum sq) (Fin (real (length ys - 1)))))\<rparr>"

text \<open>
  The return of row \<open>i\<close> in the words of the specification (step A of the engine):
  market return, lagged position, entry/exit flag and net return.
\<close>

definition market_return :: "real list \<Rightarrow> nat \<Rightarrow> fl" where
  "market_return closes i =
     (if i = 0 then NaN else fsub (fdiv (Fin (closes ! i)) (Fin (closes ! (i - 1)))) (Fin 1))"

definition position_lagged :: "fl list \<Rightarrow> nat \<Rightarrow> fl" where
  "position_lagged position i =
     (if i = 0 \<or> position ! (i - 1) = NaN then Fin 0 else position ! (i - 1))"

definition position_change :: "fl list \<Rightarrow> nat \<Rightarrow> fl" where
  "position_change position i =
     (if i = 0 then NaN
      else fabs (fsub (position_lagged position i) (position_lagged position (i - 1))))"

definition strategy_return_net :: "fl list \<Rightarrow> real list \<Rightarrow> real \<Rightarrow> nat \<Rightarrow> fl" where
  "strategy_return_net position closes commission i =
     fsub (fmul (position_lagged position i) (market_return closes i))
          (fmul (position_change position i) (Fin commission))"

text \<open>
  The net-return column as \<open>_calculate_returns\<close> computes it from the Position
  column, the closing prices and the commission.
\<close>

definition net_column :: "fl list \<Rightarrow> real list \<Rightarrow> real \<Rightarrow> fl list" where
  "net_column p closes commission =
     map2 fsub (map2 fmul (fillna (Fin 0) (shift1 p)) (pct_change closes))
       (map (\<lambda>x. fmul x (Fin commission)) (map fabs (diff (fillna (Fin 0) (shift1 p)))))"

text \<open>The product of a list of floats, and the real number a finite float stands for.\<close>

definition fprod :: "fl list \<Rightarrow> fl" where
  "fprod xs = foldl fmul (Fin 1) xs"

fun real_of :: "fl \<Rightarrow> real" where
  "real_of (Fin a) = a"
| "real_of x = 0"

text \<open>
  Running maximum and drawdown of a series of real numbers in the words of the
  specification: the largest value among the rows up to \<open>i\<close>, and the relative
  distance of row \<open>i\<close> from it.
\<close>

definition running_max :: "real list \<Rightarrow> nat \<Rightarrow> real" where
  "running_max v i = Max (set (take (Suc i) v))"

definition drawdown_at :: "real list \<Rightarrow> nat \<Rightarrow> real" where
  "drawdown_at v i = (v ! i - running_max v i) / running_max v i"

text \<open>The finite entries of a column, in order.\<close>

fun fin_vals :: "fl list \<Rightarrow> real list" where
  "fin_vals [] = []"
| "fin_vals (Fin a # xs) = a # fin_vals xs"
| "fin_vals (x # xs) = fin_vals xs"

section \<open>Basic facts about the columns\<close>


lemma length_shift1 [simp]: "length (shift1 xs) = length xs"
  by (simp add: shift1_def)

lemma shift1_nth_0: "xs \<noteq> [] \<Longrightarrow> shift1 xs ! 0 = NaN"
  by (simp add: shift1_def)

lemma shift1_nth_Suc: "Suc i < length xs \<Longrightarrow> shift1 xs ! Suc i = xs ! i"
  by (auto simp: shift1_def nth_butlast)

lemma shift1_nth: "i < length xs \<Longrightarrow> shift1 xs ! i = (if i = 0 then NaN else xs ! (i - 1))"
  by (cases i) (auto simp: shift1_def nth_butlast)

lemma length_fillna [simp]: "length (fillna v xs) = length xs"
  by (simp add: fillna_def)

lemma length_diff [simp]: "length (diff xs) = length xs"
  by (simp add: diff_def)

lemma length_pct_change [simp]: "length (pct_change xs) = length xs"
  by (simp add: pct_change_def)

lemma pct_change_nth:
  "i < length xs \<Longrightarrow>
   pct_change xs ! i = (if i = 0 then NaN else fsub (fdiv (Fin (xs ! i)) (Fin (xs ! (i - 1)))) (Fin 1))"
  by (auto simp: pct_change_def shift1_nth fsub_def)

lemma length_cumprod_from [simp]: "length (cumprod_from acc xs) = length xs"
  by (induction xs arbitrary: acc) auto

lemma length_cumprod [simp]: "length (cumprod xs) = length xs"
  by (simp add: cumprod_def)

lemma length_position_loop [simp]: "length (position_loop cur ss) = length ss"
  by (induction ss arbitrary: cur) (auto simp: Let_def)

lemma generate_signals_Close [simp]: "Close (generate_signals lib self data) = Close data"
  by (simp add: generate_signals_def set_col_def Let_def)

lemma nrows_generate_signals [simp]: "nrows (generate_signals lib self data) = nrows data"
  by (simp add: nrows_def)

lemma length_rolling_mean [simp]: "length (rolling_mean lib w xs) = length xs"
  by (simp add: rolling_mean_def)

lemma rolling_mean_nth:
  "i < length xs \<Longrightarrow>
   rolling_mean lib w xs ! i
   = (if 0 < w \<and> w \<le> i + 1 then rolling_mean_f64 lib w (take (Suc i) xs) else NaN)"
  by (simp add: rolling_mean_def)

lemma loc_assign_nth:
  "i < length msk \<Longrightarrow> i < length xs \<Longrightarrow>
   loc_assign msk xs v ! i = (if msk ! i then v else xs ! i)"
  by (simp add: loc_assign_def)

lemma fle_Fin [simp]: "fle (Fin a) (Fin b) = (a \<le> b)"
  by (auto simp: fle_def feq_def)

lemma fle_NaN [simp]: "fle NaN y = False" "fle x NaN = False"
  by (cases x; simp add: fle_def feq_def)+

lemma flt_NaN_right [simp]: "flt x NaN = False"
  by (cases x) simp_all

lemma flt_defined: "flt x y \<Longrightarrow> x \<noteq> NaN \<and> y \<noteq> NaN"
  by auto

lemma fle_defined: "fle x y \<Longrightarrow> x \<noteq> NaN \<and> y \<noteq> NaN"
  by auto

text \<open>The two masks of \<open>generate_signals\<close>, row by row, for any two columns.\<close>

lemma golden_cross_nth:
  assumes "length ms = length ml" "i < length ms"
  shows "and_col (gt_col ms ml) (le_col (shift1 ms) (shift1 ml)) ! i = golden_at ms ml i"
proof (cases i)
  case 0
  then show ?thesis
    using assms by (simp add: and_col_def gt_col_def le_col_def shift1_nth golden_at_def)
next
  case (Suc j)
  then show ?thesis
    using assms flt_defined[of "ml ! i" "ms ! i"] fle_defined[of "ms ! j" "ml ! j"]
    by (auto simp: and_col_def gt_col_def le_col_def shift1_nth golden_at_def)
qed

lemma death_cross_nth:
  assumes "length ms = length ml" "i < length ms"
  shows "and_col (lt_col ms ml) (ge_col (shift1 ms) (shift1 ml)) ! i = death_at ms ml i"
proof (cases i)
  case 0
  then show ?thesis
    using assms by (simp add: and_col_def lt_col_def ge_col_def shift1_nth death_at_def)
next
  case (Suc j)
  then show ?thesis
    using assms flt_defined[of "ms ! i" "ml ! i"] fle_defined[of "ml ! j" "ms ! j"]
    by (auto simp: and_col_def lt_col_def ge_col_def shift1_nth death_at_def)
qed

lemma init_valid:
  "MovingAverageStrategy_init short long = Inr self \<Longrightarrow>
   short_window self = short \<and> long_window self = long \<and> 2 \<le> short \<and> short < long"
  by (auto simp: MovingAverageStrategy_init_def split: if_splits)

text \<open>
  The Signal column row by row, in both branches of \<open>generate_signals\<close>: on a table
  with fewer than \<open>long_window\<close> rows the long average is undefined on every row.
\<close>

lemma generate_signals_Signal_nth:
  assumes i: "i < nrows data"
  shows "col_of (generate_signals lib self data) Signal ! i =
         (if death_at (rolling_mean lib (nat (short_window self)) (Close data))
                (rolling_mean lib (nat (long_window self)) (Close data)) i
          then Fin (- 1)
          else if golden_at (rolling_mean lib (nat (short_window self)) (Close data))
                (rolling_mean lib (nat (long_window self)) (Close data)) i
          then Fin 1 else Fin 0)"
proof -
  define ms where "ms = rolling_mean lib (nat (short_window self)) (Close data)"
  define ml where "ml = rolling_mean lib (nat (long_window self)) (Close data)"
  have i': "i < length (Close data)" using i by (simp add: nrows_def)
  have lens: "length ms = length ml" "i < length ms"
    using i' by (simp_all add: ms_def ml_def)
  show ?thesis
  proof (cases "int (nrows data) < long_window self")
    case True
    then have "\<not> nat (long_window self) \<le> i + 1" using i by auto
    then have "ml ! i = NaN"
      using i' by (simp add: ml_def rolling_mean_nth)
    then have "\<not> golden_at ms ml i" "\<not> death_at ms ml i"
      by (simp_all add: golden_at_def death_at_def)
    then show ?thesis using True i
      by (simp add: generate_signals_def col_of_def set_col_def flip: ms_def ml_def)
  next
    case False
    define G where "G = and_col (gt_col ms ml) (le_col (shift1 ms) (shift1 ml))"
    define D where "D = and_col (lt_col ms ml) (ge_col (shift1 ms) (shift1 ml))"
    have lenGD: "length G = length (Close data)" "length D = length (Close data)"
      by (simp_all add: G_def D_def and_col_def gt_col_def lt_col_def le_col_def ge_col_def
          ms_def ml_def)
    have g: "G ! i = golden_at ms ml i"
      unfolding G_def by (rule golden_cross_nth[OF lens])
    have d: "D ! i = death_at ms ml i"
      unfolding D_def by (rule death_cross_nth[OF lens])
    have col: "col_of (generate_signals lib self data) Signal
               = loc_assign D (loc_assign G (replicate (length (Close data)) (Fin 0)) (Fin 1))
                   (Fin (- 1))"
      using False
      by (simp add: generate_signals_def col_of_def set_col_def Let_def nrows_def
          G_def D_def ms_def ml_def)
    have "length (loc_assign G (replicate (length (Close data)) (Fin 0)) (Fin 1))
          = length (Close data)"
      by (simp add: loc_assign_def lenGD)
    then show ?thesis
      using i' by (simp add: col loc_assign_nth lenGD g d flip: ms_def ml_def)
  qed
qed

text \<open>On a table with at least \<open>long_window\<close> rows the two averages are stored.\<close>

lemma generate_signals_MA:
  assumes "short_window self \<noteq> long_window self"
    and "\<not> int (nrows data) < long_window self"
  shows "col_of (generate_signals lib self data) (MA (short_window self))
           = rolling_mean lib (nat (short_window self)) (Close data)"
    and "col_of (generate_signals lib self data) (MA (long_window self))
           = rolling_mean lib (nat (long_window self)) (Close data)"
  using assms by (simp_all add: generate_signals_def col_of_def set_col_def Let_def)

lemma position_loop_replicate_zero:
  "position_loop 0 (replicate n (Fin 0)) = replicate n (Fin 0)"
  by (induction n) (simp_all add: Let_def)

lemma generate_signals_Position_col:
  "col_of (generate_signals lib self data) Position
   = position_loop 0 (col_of (generate_signals lib self data) Signal)"
  by (simp add: generate_signals_def col_of_def set_col_def Let_def
      position_loop_replicate_zero)

lemma length_Signal:
  "length (col_of (generate_signals lib self data) Signal) = nrows data"
  by (simp add: generate_signals_def col_of_def set_col_def Let_def nrows_def
      loc_assign_def and_col_def gt_col_def lt_col_def le_col_def ge_col_def)

lemma position_loop_nth_0:
  "ss \<noteq> [] \<Longrightarrow>
   position_loop cur ss ! 0
   = Fin (if ss ! 0 = Fin 1 then 1 else if ss ! 0 = Fin (- 1) then 0 else cur)"
  by (cases ss) (simp_all add: Let_def)

lemma position_loop_nth_Suc:
  "Suc i < length ss \<Longrightarrow>
   \<exists>c. position_loop cur ss ! i = Fin c \<and>
       position_loop cur ss ! Suc i
       = Fin (if ss ! Suc i = Fin 1 then 1 else if ss ! Suc i = Fin (- 1) then 0 else c)"
proof (induction ss arbitrary: cur i)
  case Nil
  then show ?case by simp
next
  case (Cons s ss)
  show ?case
  proof (cases i)
    case 0
    then show ?thesis using Cons.prems by (cases ss) (simp_all add: Let_def)
  next
    case (Suc j)
    then have lt: "Suc j < length ss" using Cons.prems by simp
    define cur' where "cur' = (if s = Fin 1 then 1 else if s = Fin (- 1) then 0 else cur)"
    have unf: "position_loop cur (s # ss) = Fin cur' # position_loop cur' ss"
      by (simp add: Let_def cur'_def)
    from Cons.IH[OF lt, of cur'] show ?thesis unfolding unf Suc nth_Cons_Suc .
  qed
qed

lemma position_loop_closed:
  assumes "i < length ss" "cur = 0 \<or> cur = 1"
  shows "(position_loop cur ss ! i = Fin 0 \<or> position_loop cur ss ! i = Fin 1) \<and>
         (position_loop cur ss ! i = Fin 1 \<longleftrightarrow>
           (\<exists>j\<le>i. ss ! j = Fin 1 \<and> (\<forall>k. j < k \<and> k \<le> i \<longrightarrow> ss ! k \<noteq> Fin (- 1)))
           \<or> (cur = 1 \<and> (\<forall>k\<le>i. ss ! k \<noteq> Fin (- 1) \<and> ss ! k \<noteq> Fin 1)))"
  using assms
proof (induction i)
  case 0
  then show ?case by (auto simp: position_loop_nth_0)
next
  case (Suc i)
  have "i < length ss" using Suc.prems by simp
  note IH = Suc.IH[OF this Suc.prems(2)]
  from position_loop_nth_Suc[OF Suc.prems(1), of cur] obtain c where
    c: "position_loop cur ss ! i = Fin c"
       "position_loop cur ss ! Suc i
        = Fin (if ss ! Suc i = Fin 1 then 1 else if ss ! Suc i = Fin (- 1) then 0 else c)"
    by blast
  have c01: "c = 0 \<or> c = 1" using IH c by auto
  show ?case
  proof (cases "ss ! Suc i = Fin 1")
    case True
    then show ?thesis using c by auto
  next
    case n1: False
    show ?thesis
    proof (cases "ss ! Suc i = Fin (- 1)")
      case True
      have "\<not> (\<exists>j\<le>Suc i. ss ! j = Fin 1 \<and> (\<forall>k. j < k \<and> k \<le> Suc i \<longrightarrow> ss ! k \<noteq> Fin (- 1)))"
      proof
        assume "\<exists>j\<le>Suc i. ss ! j = Fin 1 \<and> (\<forall>k. j < k \<and> k \<le> Suc i \<longrightarrow> ss ! k \<noteq> Fin (- 1))"
        then obtain j where j: "j \<le> Suc i" "ss ! j = Fin 1"
          "\<forall>k. j < k \<and> k \<le> Suc i \<longrightarrow> ss ! k \<noteq> Fin (- 1)" by blast
        have "j \<noteq> Suc i" using j(2) True by auto
        then have "j < Suc i" using j(1) by simp
        then show False using j(3) True by blast
      qed
      then show ?thesis using c True by auto
    next
      case False
      have eq: "position_loop cur ss ! Suc i = position_loop cur ss ! i"
        using c n1 False by simp
      have a: "(\<exists>j\<le>Suc i. ss ! j = Fin 1 \<and> (\<forall>k. j < k \<and> k \<le> Suc i \<longrightarrow> ss ! k \<noteq> Fin (- 1)))
            \<longleftrightarrow> (\<exists>j\<le>i. ss ! j = Fin 1 \<and> (\<forall>k. j < k \<and> k \<le> i \<longrightarrow> ss ! k \<noteq> Fin (- 1)))"
        (is "?L \<longleftrightarrow> ?R")
      proof
        assume ?L
        then obtain j where j: "j \<le> Suc i" "ss ! j = Fin 1"
          "\<forall>k. j < k \<and> k \<le> Suc i \<longrightarrow> ss ! k \<noteq> Fin (- 1)" by blast
        have "j \<le> i" using j(1,2) n1 by (cases "j = Suc i") auto
        then show ?R using j by auto
      next
        assume ?R
        then obtain j where j: "j \<le> i" "ss ! j = Fin 1"
          "\<forall>k. j < k \<and> k \<le> i \<longrightarrow> ss ! k \<noteq> Fin (- 1)" by blast
        have "\<forall>k. j < k \<and> k \<le> Suc i \<longrightarrow> ss ! k \<noteq> Fin (- 1)"
          using j(3) False by (metis le_SucE)
        then show ?L using j(1,2) by (intro exI[of _ j]) simp
      qed
      have b: "(\<forall>k\<le>Suc i. ss ! k \<noteq> Fin (- 1) \<and> ss ! k \<noteq> Fin 1)
            \<longleftrightarrow> (\<forall>k\<le>i. ss ! k \<noteq> Fin (- 1) \<and> ss ! k \<noteq> Fin 1)"
        using n1 False by (metis le_SucE le_SucI)
      show ?thesis unfolding eq a b using IH by blast
    qed
  qed
qed

text \<open>The example table: a buy at row 4, a sell at row 6.\<close>

lemma rolling_mean_f64_exact_lib:
  "rolling_mean_f64 exact_lib w xs = Fin (sum_list (drop (length xs - w) xs) / real w)"
  by (simp add: exact_lib_def)

lemma example_averages:
  "rolling_mean exact_lib 2 [8, 8, 8, 8, 16, 16, 4, 4]
     = [NaN, Fin 8, Fin 8, Fin 8, Fin 12, Fin 16, Fin 10, Fin 4]"
  "rolling_mean exact_lib 4 [8, 8, 8, 8, 16, 16, 4, 4]
     = [NaN, NaN, NaN, Fin 8, Fin 10, Fin 12, Fin 11, Fin 10]"
  by (simp_all add: rolling_mean_def rolling_mean_f64_exact_lib
      upt_rec[of _ "numeral _"] upt_rec[of _ "Suc _"])

lemma example_signals:
  "col_of (generate_signals exact_lib \<lparr>short_window = 2, long_window = 4\<rparr>
        \<lparr>Close = [8, 8, 8, 8, 16, 16, 4, 4], cols = Map.empty\<rparr>) Signal
   = [Fin 0, Fin 0, Fin 0, Fin 0, Fin 1, Fin 0, Fin (- 1), Fin 0]"
  "col_of (generate_signals exact_lib \<lparr>short_window = 2, long_window = 4\<rparr>
        \<lparr>Close = [8, 8, 8, 8, 16, 16, 4, 4], cols = Map.empty\<rparr>) (MA 4)
   = [NaN, NaN, NaN, Fin 8, Fin 10, Fin 12, Fin 11, Fin 10]"
  by (simp_all add: generate_signals_def col_of_def set_col_def Let_def nrows_def
      example_averages shift1_def loc_assign_def and_col_def gt_col_def lt_col_def
      le_col_def ge_col_def)

section \<open>Signals and positions\<close>

text \<open>
  C6. Crossover signal definition, on the moving averages as the code computes them
  (float64 results of the library, whatever their rounding). For a strategy that was
  constructed and every row \<open>i\<close> of the table: the two averages are the columns
  \<open>MA_<short>\<close> and \<open>MA_<long>\<close> that \<open>generate_signals\<close> stores (on a table with at
  least \<open>long_window\<close> rows), each undefined on its first \<open>window - 1\<close> rows;
  \<open>generate_signals\<close> writes +1 exactly at a golden cross (short average strictly
  above the long one at \<open>i\<close>, at or below it at \<open>i - 1\<close>, both averages defined at both
  rows) and -1 exactly at a death cross (the mirror image); no other value than 0, +1,
  -1 is written; a row where the two averages are equal gets 0; and the first row at
  which both averages are defined (row \<open>long_window - 1\<close>) gets 0.
\<close>

theorem crossover_signal_definition:
  assumes "MovingAverageStrategy_init short long = Inr self"
    and "i < nrows data"
  shows "(long \<le> int (nrows data) \<longrightarrow>
            col_of (generate_signals lib self data) (MA short)
              = rolling_mean lib (nat short) (Close data)
          \<and> col_of (generate_signals lib self data) (MA long)
              = rolling_mean lib (nat long) (Close data))
       \<and> (\<not> ma_defined short i \<longrightarrow> rolling_mean lib (nat short) (Close data) ! i = NaN)
       \<and> (\<not> ma_defined long i \<longrightarrow> rolling_mean lib (nat long) (Close data) ! i = NaN)
       \<and> (col_of (generate_signals lib self data) Signal ! i = Fin 1
            \<longleftrightarrow> golden_at (rolling_mean lib (nat short) (Close data))
                  (rolling_mean lib (nat long) (Close data)) i)
       \<and> (col_of (generate_signals lib self data) Signal ! i = Fin (- 1)
            \<longleftrightarrow> death_at (rolling_mean lib (nat short) (Close data))
                  (rolling_mean lib (nat long) (Close data)) i)
       \<and> (col_of (generate_signals lib self data) Signal ! i = Fin 0
            \<longleftrightarrow> \<not> golden_at (rolling_mean lib (nat short) (Close data))
                    (rolling_mean lib (nat long) (Close data)) i
                \<and> \<not> death_at (rolling_mean lib (nat short) (Close data))
                    (rolling_mean lib (nat long) (Close data)) i)
       \<and> (feq (rolling_mean lib (nat short) (Close data) ! i)
               (rolling_mean lib (nat long) (Close data) ! i)
            \<longrightarrow> col_of (generate_signals lib self data) Signal ! i = Fin 0)
       \<and> (int i = long - 1 \<longrightarrow> col_of (generate_signals lib self data) Signal ! i = Fin 0)"
proof -
  define ms where "ms = rolling_mean lib (nat short) (Close data)"
  define ml where "ml = rolling_mean lib (nat long) (Close data)"
  from init_valid[OF assms(1)] have v: "short_window self = short" "long_window self = long"
    "2 \<le> short" "short < long" by auto
  have i': "i < length (Close data)" using assms(2) by (simp add: nrows_def)
  have stored: "long \<le> int (nrows data) \<longrightarrow>
      col_of (generate_signals lib self data) (MA short) = ms
      \<and> col_of (generate_signals lib self data) (MA long) = ml"
    using generate_signals_MA[of self data lib] v by (auto simp: ms_def ml_def)
  have undef: "\<not> ma_defined short i \<longrightarrow> ms ! i = NaN" "\<not> ma_defined long i \<longrightarrow> ml ! i = NaN"
    using i' by (auto simp: ms_def ml_def rolling_mean_nth ma_defined_def)
  have s: "col_of (generate_signals lib self data) Signal ! i =
         (if death_at ms ml i then Fin (- 1) else if golden_at ms ml i then Fin 1 else Fin 0)"
    using generate_signals_Signal_nth[OF assms(2), of lib self] v by (simp add: ms_def ml_def)
  have excl: "\<not> (golden_at ms ml i \<and> death_at ms ml i)"
    by (cases "ms ! i"; cases "ml ! i") (auto simp: golden_at_def death_at_def)
  have tie: "feq (ms ! i) (ml ! i) \<Longrightarrow> \<not> golden_at ms ml i \<and> \<not> death_at ms ml i"
    by (cases "ms ! i"; cases "ml ! i") (auto simp: golden_at_def death_at_def feq_def)
  have first: "int i = long - 1 \<Longrightarrow> \<not> golden_at ms ml i \<and> \<not> death_at ms ml i"
  proof -
    assume a: "int i = long - 1"
    show ?thesis
    proof (cases i)
      case 0
      then show ?thesis by (simp add: golden_at_def death_at_def)
    next
      case (Suc j)
      then have "j < length (Close data)" "\<not> nat long \<le> j + 1" using i' a by auto
      then have "ml ! (i - 1) = NaN"
        using Suc by (simp add: ml_def rolling_mean_nth)
      then show ?thesis by (simp add: golden_at_def death_at_def)
    qed
  qed
  show ?thesis
    unfolding ms_def[symmetric] ml_def[symmetric]
    using stored undef s excl tie first by auto
qed

theorem crossover_signal_definition_witness:
  "MovingAverageStrategy_init 2 4 = Inr \<lparr>short_window = 2, long_window = 4\<rparr>
   \<and> 4 < nrows \<lparr>Close = [8, 8, 8, 8, 16, 16, 4, 4], cols = Map.empty\<rparr>
   \<and> col_of (generate_signals exact_lib \<lparr>short_window = 2, long_window = 4\<rparr>
        \<lparr>Close = [8, 8, 8, 8, 16, 16, 4, 4], cols = Map.empty\<rparr>) Signal ! 4 = Fin 1
   \<and> golden_at (rolling_mean exact_lib 2 [8, 8, 8, 8, 16, 16, 4, 4])
       (rolling_mean exact_lib 4 [8, 8, 8, 8, 16, 16, 4, 4]) 4
   \<and> col_of (generate_signals exact_lib \<lparr>short_window = 2, long_window = 4\<rparr>
        \<lparr>Close = [8, 8, 8, 8, 16, 16, 4, 4], cols = Map.empty\<rparr>) (MA 4)
       = [NaN, NaN, NaN, Fin 8, Fin 10, Fin 12, Fin 11, Fin 10]"
proof -
  have h1: "MovingAverageStrategy_init 2 4 = Inr \<lparr>short_window = 2, long_window = 4\<rparr>"
    by (simp add: MovingAverageStrategy_init_def)
  have h2: "4 < nrows \<lparr>Close = [8, 8, 8, 8, 16, 16, 4, 4], cols = Map.empty\<rparr>"
    by (simp add: nrows_def)
  have g: "col_of (generate_signals exact_lib \<lparr>short_window = 2, long_window = 4\<rparr>
        \<lparr>Close = [8, 8, 8, 8, 16, 16, 4, 4], cols = Map.empty\<rparr>) Signal ! 4 = Fin 1"
    by (simp add: example_signals)
  have m: "rolling_mean exact_lib (nat 4) [8, 8, 8, 8, 16, 16, 4, 4]
           = [NaN, NaN, NaN, Fin 8, Fin 10, Fin 12, Fin 11, Fin 10]"
    by (simp add: example_averages)
  have l: "(4::int) \<le> int (nrows \<lparr>Close = [8, 8, 8, 8, 16, 16, 4, 4], cols = Map.empty\<rparr>)"
    by (simp add: nrows_def)
  from crossover_signal_definition[OF h1 h2, of exact_lib] g h1 h2 l m
  show ?thesis by simp
qed

text \<open>
  C5. Position is a right-continuous step function of the signal, always 0 or 1: at
  every row \<open>i\<close> the position written by \<open>generate_signals\<close> is 1 exactly when some
  row \<open>j \<le> i\<close> carries the signal +1 and no row after \<open>j\<close> up to and including \<open>i\<close>
  carries -1. So it is 1 on the row of a buy signal, 0 on the very row of a sell signal,
  0 as long as no signal has fired, and unchanged on a row whose signal is 0.
\<close>

theorem position_step_function:
  assumes "i < nrows data"
  shows "(col_of (generate_signals lib self data) Position ! i = Fin 0
          \<or> col_of (generate_signals lib self data) Position ! i = Fin 1)
       \<and> (col_of (generate_signals lib self data) Position ! i = Fin 1 \<longleftrightarrow>
            (\<exists>j\<le>i. col_of (generate_signals lib self data) Signal ! j = Fin 1
               \<and> (\<forall>k. j < k \<and> k \<le> i
                     \<longrightarrow> col_of (generate_signals lib self data) Signal ! k \<noteq> Fin (- 1))))
       \<and> (col_of (generate_signals lib self data) Signal ! i = Fin 1
            \<longrightarrow> col_of (generate_signals lib self data) Position ! i = Fin 1)
       \<and> (col_of (generate_signals lib self data) Signal ! i = Fin (- 1)
            \<longrightarrow> col_of (generate_signals lib self data) Position ! i = Fin 0)
       \<and> ((\<forall>j\<le>i. col_of (generate_signals lib self data) Signal ! j = Fin 0)
            \<longrightarrow> col_of (generate_signals lib self data) Position ! i = Fin 0)
       \<and> (0 < i \<and> col_of (generate_signals lib self data) Signal ! i = Fin 0
            \<longrightarrow> col_of (generate_signals lib self data) Position ! i
                = col_of (generate_signals lib self data) Position ! (i - 1))"
proof -
  define sg where "sg = col_of (generate_signals lib self data) Signal"
  define ps where "ps = col_of (generate_signals lib self data) Position"
  have ps: "ps = position_loop 0 sg"
    by (simp add: ps_def sg_def generate_signals_Position_col)
  have len: "i < length sg"
    using assms by (simp add: sg_def length_Signal)
  from position_loop_closed[OF len, of 0]
  have cl: "ps ! i = Fin 0 \<or> ps ! i = Fin 1"
    "ps ! i = Fin 1 \<longleftrightarrow>
       (\<exists>j\<le>i. sg ! j = Fin 1 \<and> (\<forall>k. j < k \<and> k \<le> i \<longrightarrow> sg ! k \<noteq> Fin (- 1)))"
    unfolding ps by auto
  have buy: "sg ! i = Fin 1 \<longrightarrow> ps ! i = Fin 1"
    using cl(2) by auto
  have sell: "sg ! i = Fin (- 1) \<longrightarrow> ps ! i = Fin 0"
  proof
    assume a: "sg ! i = Fin (- 1)"
    have "ps ! i \<noteq> Fin 1"
    proof
      assume "ps ! i = Fin 1"
      then obtain j where j: "j \<le> i" "sg ! j = Fin 1"
        "\<forall>k. j < k \<and> k \<le> i \<longrightarrow> sg ! k \<noteq> Fin (- 1)" using cl(2) by blast
      have "j \<noteq> i" using j(2) a by auto
      then show False using j a by (simp add: le_less)
    qed
    then show "ps ! i = Fin 0" using cl(1) by simp
  qed
  have none: "(\<forall>j\<le>i. sg ! j = Fin 0) \<longrightarrow> ps ! i = Fin 0"
    using cl by auto
  have keep: "0 < i \<and> sg ! i = Fin 0 \<longrightarrow> ps ! i = ps ! (i - 1)"
  proof
    assume a: "0 < i \<and> sg ! i = Fin 0"
    then obtain j where i: "i = Suc j" by (cases i) auto
    from position_loop_nth_Suc[of j sg 0] len i obtain c where
      "position_loop 0 sg ! j = Fin c"
      "position_loop 0 sg ! Suc j
        = Fin (if sg ! Suc j = Fin 1 then 1 else if sg ! Suc j = Fin (- 1) then 0 else c)"
      by auto
    then show "ps ! i = ps ! (i - 1)" using a i by (simp add: ps)
  qed
  show ?thesis
    using cl buy sell none keep unfolding sg_def ps_def by blast
qed

theorem position_step_function_witness:
  "6 < nrows \<lparr>Close = [8, 8, 8, 8, 16, 16, 4, 4], cols = Map.empty\<rparr>
   \<and> col_of (generate_signals exact_lib \<lparr>short_window = 2, long_window = 4\<rparr>
        \<lparr>Close = [8, 8, 8, 8, 16, 16, 4, 4], cols = Map.empty\<rparr>) Signal ! 6 = Fin (- 1)
   \<and> col_of (generate_signals exact_lib \<lparr>short_window = 2, long_window = 4\<rparr>
        \<lparr>Close = [8, 8, 8, 8, 16, 16, 4, 4], cols = Map.empty\<rparr>) Position ! 6 = Fin 0"
proof -
  have h: "6 < nrows \<lparr>Close = [8, 8, 8, 8, 16, 16, 4, 4], cols = Map.empty\<rparr>"
    by (simp add: nrows_def)
  have g: "col_of (generate_signals exact_lib \<lparr>short_window = 2, long_window = 4\<rparr>
        \<lparr>Close = [8, 8, 8, 8, 16, 16, 4, 4], cols = Map.empty\<rparr>) Signal ! 6 = Fin (- 1)"
    by (simp add: example_signals)
  from position_step_function[OF h, of exact_lib "\<lparr>short_window = 2, long_window = 4\<rparr>"] g h
  show ?thesis by simp
qed

section \<open>The return columns, row by row\<close>

lemma fsub_NaN [simp]: "fsub x NaN = NaN" "fsub NaN y = NaN"
  by (cases x; simp add: fsub_def)+

lemma fmul_NaN_right [simp]: "fmul x NaN = NaN"
  by (cases x) simp_all

lemma fadd_NaN_right [simp]: "fadd x NaN = NaN"
  by (cases x) simp_all

lemma fadd_one_NaN_iff [simp]: "fadd (Fin 1) x = NaN \<longleftrightarrow> x = NaN"
  by (cases x) simp_all

lemma fillna_shift1_nth:
  "i < length p \<Longrightarrow> fillna (Fin 0) (shift1 p) ! i = position_lagged p i"
  by (auto simp: fillna_def shift1_nth position_lagged_def)

lemma pct_change_market_return:
  "i < length xs \<Longrightarrow> pct_change xs ! i = market_return xs i"
  by (simp add: pct_change_nth market_return_def)

lemma diff_nth:
  "i < length xs \<Longrightarrow> diff xs ! i = (if i = 0 then NaN else fsub (xs ! i) (xs ! (i - 1)))"
  by (auto simp: diff_def shift1_nth)

lemma length_net_column [simp]:
  "length (net_column p closes commission) = min (length p) (length closes)"
  by (simp add: net_column_def)

lemma net_column_nth:
  assumes "i < length p" "i < length closes"
  shows "net_column p closes commission ! i = strategy_return_net p closes commission i"
proof -
  have "diff (fillna (Fin 0) (shift1 p)) ! i
        = (if i = 0 then NaN
           else fsub (position_lagged p i) (position_lagged p (i - 1)))"
    using assms by (simp add: diff_nth fillna_shift1_nth)
  then have "fabs (diff (fillna (Fin 0) (shift1 p)) ! i) = position_change p i"
    by (simp add: position_change_def)
  then show ?thesis
    using assms
    by (simp add: net_column_def strategy_return_net_def fillna_shift1_nth
        pct_change_market_return)
qed

lemma calculate_returns_cols:
  assumes "cols data Position = Some p"
  shows "\<exists>res. calculate_returns data cap comm = Inr res
     \<and> Close res = Close data
     \<and> cols res Position = Some p
     \<and> cols res Returns = Some (pct_change (Close data))
     \<and> cols res Strategy_Returns_Net = Some (net_column p (Close data) comm)
     \<and> cols res Cumulative_Returns
         = Some (cumprod (map (fadd (Fin 1)) (net_column p (Close data) comm)))
     \<and> cols res Portfolio_Value
         = Some (map (fmul (Fin cap))
                  (cumprod (map (fadd (Fin 1)) (net_column p (Close data) comm))))
     \<and> cols res BuyHold_Returns = Some (fillna (Fin 0) (pct_change (Close data)))
     \<and> cols res BuyHold_Cumulative
         = Some (cumprod (map (fadd (Fin 1)) (fillna (Fin 0) (pct_change (Close data)))))
     \<and> cols res BuyHold_Value
         = Some (map (fmul (Fin cap))
                  (cumprod (map (fadd (Fin 1)) (fillna (Fin 0) (pct_change (Close data))))))"
  using assms
  by (simp add: calculate_returns_def Let_def bind_err_def get_col_def set_col_def
      net_column_def)

lemma col_of_Some: "cols data c = Some v \<Longrightarrow> col_of data c = v"
  by (simp add: col_of_def)

lemma cumprod_from_nth:
  "i < length xs \<Longrightarrow>
   cumprod_from acc xs ! i
   = (if xs ! i = NaN then NaN else foldl fmul acc (dropna (take (Suc i) xs)))"
proof (induction xs arbitrary: acc i)
  case Nil
  then show ?case by simp
next
  case (Cons x xs)
  show ?case
  proof (cases i)
    case 0
    then show ?thesis by (simp add: dropna_def)
  next
    case (Suc j)
    then have "j < length xs" using Cons.prems by simp
    from Cons.IH[OF this] show ?thesis
      using Suc by (simp add: dropna_def)
  qed
qed

lemma cumprod_nth:
  "i < length xs \<Longrightarrow>
   cumprod xs ! i = (if xs ! i = NaN then NaN else fprod (dropna (take (Suc i) xs)))"
  by (simp add: cumprod_def cumprod_from_nth fprod_def)

lemma dropna_map_add_one:
  "dropna (map (fadd (Fin 1)) xs) = map (fadd (Fin 1)) (dropna xs)"
  by (induction xs) (simp_all add: dropna_def)

lemma fprod_snoc: "fprod (xs @ [x]) = fmul (fprod xs) x"
  by (simp add: fprod_def)

lemma dropna_append: "dropna (xs @ ys) = dropna xs @ dropna ys"
  by (simp add: dropna_def)

text \<open>The running product over rows 1..i when those rows are finite and row 0 is NaN.\<close>

lemma fprod_finite_rows:
  assumes "i < length xs" "xs ! 0 = NaN" "\<forall>k. 1 \<le> k \<and> k \<le> i \<longrightarrow> (\<exists>r. xs ! k = Fin r)"
  shows "fprod (map (fadd (Fin 1)) (dropna (take (Suc i) xs)))
         = Fin (\<Prod>k = 1..i. 1 + real_of (xs ! k))"
  using assms
proof (induction i)
  case 0
  then have "take (Suc 0) xs = [NaN]"
    by (cases xs) auto
  then show ?case by (simp add: dropna_def fprod_def)
next
  case (Suc i)
  have lt: "i < length xs" using Suc.prems by simp
  have IH: "fprod (map (fadd (Fin 1)) (dropna (take (Suc i) xs)))
         = Fin (\<Prod>k = 1..i. 1 + real_of (xs ! k))"
    using Suc.IH[OF lt Suc.prems(2)] Suc.prems(3) by simp
  obtain r where r: "xs ! Suc i = Fin r" using Suc.prems(3) by auto
  have "take (Suc (Suc i)) xs = take (Suc i) xs @ [xs ! Suc i]"
    using Suc.prems(1) by (simp add: take_Suc_conv_app_nth)
  then have "fprod (map (fadd (Fin 1)) (dropna (take (Suc (Suc i)) xs)))
        = fmul (fprod (map (fadd (Fin 1)) (dropna (take (Suc i) xs)))) (Fin (1 + r))"
    using r by (simp add: dropna_append fprod_snoc dropna_def)
  also have "\<dots> = Fin ((\<Prod>k = 1..i. 1 + real_of (xs ! k)) * (1 + r))"
    by (simp add: IH)
  also have "(\<Prod>k = 1..i. 1 + real_of (xs ! k)) * (1 + r)
             = (\<Prod>k = 1..Suc i. 1 + real_of (xs ! k))"
    using r by simp
  finally show ?case .
qed


lemma cumprod_eq_Nil [simp]: "cumprod xs = [] \<longleftrightarrow> xs = []"
  using length_cumprod[of xs] by (metis length_0_conv)

lemma pct_change_eq_Nil: "pct_change xs = [] \<longleftrightarrow> xs = []"
  using length_pct_change[of xs] by (metis length_0_conv)

lemma net_column_eq_Nil: "net_column p closes comm = [] \<longleftrightarrow> p = [] \<or> closes = []"
proof -
  have "(net_column p closes comm = []) = (length (net_column p closes comm) = 0)"
    by (simp only: length_0_conv)
  also have "\<dots> = (p = [] \<or> closes = [])"
    by (auto simp: min_def)
  finally show ?thesis .
qed

lemma calculate_metrics_Inr:
  assumes "cols res Strategy_Returns_Net = Some net"
    "cols res BuyHold_Returns = Some bh"
    "cols res Cumulative_Returns = Some cum"
    "cols res BuyHold_Cumulative = Some bhc"
    "cols res Portfolio_Value = Some pv"
    "cum \<noteq> []" "bhc \<noteq> []"
  shows "\<exists>m. calculate_metrics lib d res = Inr m
     \<and> total_return m = fsub (last cum) (Fin 1)
     \<and> buyhold_return m = fsub (last bhc) (Fin 1)
     \<and> excess_return m = fsub (fsub (last cum) (Fin 1)) (fsub (last bhc) (Fin 1))
     \<and> volatility m = fmul (series_std lib (dropna net)) (Fin (sqrt 252))
     \<and> sharpe_ratio m = calculate_sharpe_ratio lib (dropna net) (2 / 100)
     \<and> max_drawdown m = calculate_max_drawdown pv
     \<and> total_trades m = length (filter (\<lambda>x. \<not> feq x (Fin 0)) (dropna net))
     \<and> win_rate m =
         (if 0 < length (filter (\<lambda>x. \<not> feq x (Fin 0)) (dropna net))
          then Fin (real (length (filter (\<lambda>x. flt (Fin 0) x) (dropna net)))
                    / real (length (filter (\<lambda>x. \<not> feq x (Fin 0)) (dropna net))))
          else Fin 0)"
  using assms
  by (simp add: calculate_metrics_def bind_err_def get_col_def iloc_last_def Let_def)

lemma calculate_metrics_empty:
  assumes "cols res Strategy_Returns_Net = Some net"
    "cols res BuyHold_Returns = Some bh"
    "cols res Cumulative_Returns = Some []"
  shows "calculate_metrics lib d res = Inl IndexError"
  using assms
  by (simp add: calculate_metrics_def bind_err_def get_col_def iloc_last_def)

lemma generate_signals_Position_Some:
  "\<exists>p. cols (generate_signals lib self data) Position = Some p \<and> length p = nrows data
       \<and> p = col_of (generate_signals lib self data) Position"
  by (simp add: generate_signals_def set_col_def Let_def loc_assign_def and_col_def
      gt_col_def lt_col_def le_col_def ge_col_def nrows_def col_of_def)

text \<open>What a backtest returns: failure exactly on a table without rows.\<close>

lemma backtest_empty:
  assumes "Close data = []"
  shows "backtest lib self data cap comm = Inl IndexError"
proof -
  obtain p where p: "cols (generate_signals lib self data) Position = Some p"
    using generate_signals_Position_Some by blast
  from calculate_returns_cols[OF p, of cap comm] obtain res where
    res: "calculate_returns (generate_signals lib self data) cap comm = Inr res"
      "cols res Strategy_Returns_Net = Some (net_column p (Close (generate_signals lib self data)) comm)"
      "cols res BuyHold_Returns = Some (fillna (Fin 0) (pct_change (Close (generate_signals lib self data))))"
      "cols res Cumulative_Returns
         = Some (cumprod (map (fadd (Fin 1)) (net_column p (Close (generate_signals lib self data)) comm)))"
    by blast
  have "cols res Cumulative_Returns = Some []"
    using res(4) assms by (simp add: net_column_def pct_change_def cumprod_def)
  from calculate_metrics_empty[OF res(2) res(3) this]
  show ?thesis by (simp add: backtest_def Let_def res(1) bind_err_def)
qed

lemma backtest_nonempty:
  assumes "Close data \<noteq> []"
  shows "\<exists>p res m. cols (generate_signals lib self data) Position = Some p
     \<and> length p = nrows data
     \<and> calculate_returns (generate_signals lib self data) cap comm = Inr res
     \<and> calculate_metrics lib res res = Inr m
     \<and> backtest lib self data cap comm
         = Inr \<lparr>equity_curve = res, metrics_of = m,
                initial_capital_of = cap, commission_of = comm\<rparr>"
proof -
  obtain p where p: "cols (generate_signals lib self data) Position = Some p"
    "length p = nrows data"
    using generate_signals_Position_Some by blast
  from calculate_returns_cols[OF p(1), of cap comm] obtain res where
    res: "calculate_returns (generate_signals lib self data) cap comm = Inr res"
      "cols res Strategy_Returns_Net = Some (net_column p (Close (generate_signals lib self data)) comm)"
      "cols res BuyHold_Returns = Some (fillna (Fin 0) (pct_change (Close (generate_signals lib self data))))"
      "cols res Cumulative_Returns
         = Some (cumprod (map (fadd (Fin 1)) (net_column p (Close (generate_signals lib self data)) comm)))"
      "cols res BuyHold_Cumulative
         = Some (cumprod (map (fadd (Fin 1)) (fillna (Fin 0) (pct_change (Close (generate_signals lib self data))))))"
      "cols res Portfolio_Value
         = Some (map (fmul (Fin cap))
                  (cumprod (map (fadd (Fin 1)) (net_column p (Close (generate_signals lib self data)) comm))))"
    by blast
  have "p \<noteq> []" using assms p(2) by (auto simp: nrows_def)
  then have ne1: "cumprod (map (fadd (Fin 1)) (net_column p (Close (generate_signals lib self data)) comm)) \<noteq> []"
    using assms by (simp add: net_column_eq_Nil)
  have ne2: "cumprod (map (fadd (Fin 1)) (fillna (Fin 0) (pct_change (Close (generate_signals lib self data))))) \<noteq> []"
    using assms by (simp add: fillna_def pct_change_eq_Nil)
  from calculate_metrics_Inr[OF res(2) res(3) res(4) res(5) res(6) ne1 ne2, of lib res]
  obtain m where m: "calculate_metrics lib res res = Inr m" by blast
  show ?thesis
    using p res(1) m by (simp add: backtest_def Let_def bind_err_def)
qed

text \<open>
  C10. For every price table with at least one row, the first entry of the strategy
  equity curve is NaN and not the initial capital: the net return of row 0 is NaN and
  so are the cumulative return and the portfolio value of row 0. The buy-and-hold
  curve starts at the initial capital, because its first return is replaced by 0.
\<close>

theorem first_equity_entry_undefined:
  assumes "1 \<le> nrows data"
  shows "\<exists>r. backtest lib self data cap comm = Inr r
     \<and> col_of (equity_curve r) Returns ! 0 = NaN
     \<and> col_of (equity_curve r) Strategy_Returns_Net ! 0 = NaN
     \<and> col_of (equity_curve r) Cumulative_Returns ! 0 = NaN
     \<and> col_of (equity_curve r) Portfolio_Value ! 0 = NaN
     \<and> col_of (equity_curve r) Portfolio_Value ! 0 \<noteq> Fin cap
     \<and> length (col_of (equity_curve r) Portfolio_Value) = nrows data
     \<and> col_of (equity_curve r) BuyHold_Returns ! 0 = Fin 0
     \<and> col_of (equity_curve r) BuyHold_Cumulative ! 0 = Fin 1
     \<and> col_of (equity_curve r) BuyHold_Value ! 0 = Fin cap
     \<and> length (col_of (equity_curve r) BuyHold_Value) = nrows data"
proof -
  have ne: "Close data \<noteq> []" using assms by (auto simp: nrows_def)
  from backtest_nonempty[OF ne, of lib self cap comm] obtain p res m where
    p: "cols (generate_signals lib self data) Position = Some p" "length p = nrows data"
    and res: "calculate_returns (generate_signals lib self data) cap comm = Inr res"
    and bt: "backtest lib self data cap comm
         = Inr \<lparr>equity_curve = res, metrics_of = m,
                initial_capital_of = cap, commission_of = comm\<rparr>"
    by blast
  define net where "net = net_column p (Close data) comm"
  from calculate_returns_cols[OF p(1), of cap comm] res
  have c: "col_of res Returns = pct_change (Close data)"
    "col_of res Strategy_Returns_Net = net"
    "col_of res Cumulative_Returns = cumprod (map (fadd (Fin 1)) net)"
    "col_of res Portfolio_Value = map (fmul (Fin cap)) (cumprod (map (fadd (Fin 1)) net))"
    "col_of res BuyHold_Returns = fillna (Fin 0) (pct_change (Close data))"
    "col_of res BuyHold_Cumulative
       = cumprod (map (fadd (Fin 1)) (fillna (Fin 0) (pct_change (Close data))))"
    "col_of res BuyHold_Value
       = map (fmul (Fin cap))
           (cumprod (map (fadd (Fin 1)) (fillna (Fin 0) (pct_change (Close data)))))"
    by (auto simp: col_of_Some net_def)
  have n: "0 < length p" "0 < length (Close data)" "0 < nrows data"
    using assms p(2) by (auto simp: nrows_def)
  have r0: "pct_change (Close data) ! 0 = NaN"
    using n by (simp add: pct_change_nth)
  have net0: "net ! 0 = NaN"
    using n unfolding net_def
    by (simp add: net_column_nth strategy_return_net_def market_return_def)
  have lnet: "length net = nrows data"
    using p(2) by (simp add: net_def nrows_def)
  have cum0: "cumprod (map (fadd (Fin 1)) net) ! 0 = NaN"
    using n lnet net0 by (simp add: cumprod_nth)
  have bh0: "fillna (Fin 0) (pct_change (Close data)) ! 0 = Fin 0"
    using n r0 by (simp add: fillna_def)
  have bhc0: "cumprod (map (fadd (Fin 1)) (fillna (Fin 0) (pct_change (Close data)))) ! 0 = Fin 1"
    using n bh0
    by (simp add: cumprod_nth take_Suc_conv_app_nth dropna_def fprod_def)
  show ?thesis
    using bt c r0 net0 cum0 bh0 bhc0 n lnet
    by (simp add: nrows_def)
qed

theorem first_equity_entry_undefined_witness:
  "1 \<le> nrows \<lparr>Close = [10, 10, 10, 20, 10], cols = Map.empty\<rparr>
   \<and> (\<exists>r. backtest exact_lib \<lparr>short_window = 2, long_window = 4\<rparr>
             \<lparr>Close = [10, 10, 10, 20, 10], cols = Map.empty\<rparr> 10000 (1 / 1000) = Inr r
          \<and> col_of (equity_curve r) Portfolio_Value ! 0 = NaN
          \<and> col_of (equity_curve r) BuyHold_Value ! 0 = Fin 10000)"
proof -
  have h: "1 \<le> nrows \<lparr>Close = [10, 10, 10, 20, 10], cols = Map.empty\<rparr>"
    by (simp add: nrows_def)
  from first_equity_entry_undefined[OF h, of exact_lib "\<lparr>short_window = 2, long_window = 4\<rparr>"
      10000 "1 / 1000"] h
  show ?thesis by blast
qed

text \<open>
  C4. Cumulative-return identity: at every row whose net return is defined, the
  portfolio value is the initial capital times the product of \<open>1 + net return\<close> over
  the defined rows up to that row, the product starting from 1; where the net return
  is NaN (row 0) the portfolio value is NaN as well. When the net returns of rows
  1..i are finite numbers this is \<open>initial_capital * \<Prod>k=1..i. (1 + net k)\<close>. It holds
  for every initial capital and every Position column, and \<open>_calculate_returns\<close>
  succeeds.
\<close>

theorem cumulative_return_identity:
  assumes "cols data Position = Some p" and "length p = nrows data" and "i < nrows data"
  shows "\<exists>res. calculate_returns data cap comm = Inr res
     \<and> (col_of res Strategy_Returns_Net ! i = NaN
          \<longrightarrow> col_of res Portfolio_Value ! i = NaN)
     \<and> (col_of res Strategy_Returns_Net ! i \<noteq> NaN
          \<longrightarrow> col_of res Portfolio_Value ! i
              = fmul (Fin cap)
                  (fprod (map (fadd (Fin 1))
                     (dropna (take (Suc i) (col_of res Strategy_Returns_Net))))))
     \<and> (1 \<le> i \<and> (\<forall>k. 1 \<le> k \<and> k \<le> i
                     \<longrightarrow> (\<exists>r. col_of res Strategy_Returns_Net ! k = Fin r))
          \<longrightarrow> col_of res Portfolio_Value ! i
              = Fin (cap * (\<Prod>k = 1..i. 1 + real_of (col_of res Strategy_Returns_Net ! k))))"
proof -
  define net where "net = net_column p (Close data) comm"
  from calculate_returns_cols[OF assms(1), of cap comm] obtain res where
    res: "calculate_returns data cap comm = Inr res"
    and c: "col_of res Strategy_Returns_Net = net"
      "col_of res Portfolio_Value = map (fmul (Fin cap)) (cumprod (map (fadd (Fin 1)) net))"
    by (auto simp: col_of_Some net_def)
  have lnet: "length net = nrows data"
    using assms(2) by (simp add: net_def nrows_def)
  have i: "i < length net" "0 < length net" using assms(3) lnet by simp_all
  have net0: "net ! 0 = NaN"
    using i(2) assms(2) lnet unfolding net_def
    by (simp add: net_column_nth strategy_return_net_def market_return_def nrows_def)
  have pv: "map (fmul (Fin cap)) (cumprod (map (fadd (Fin 1)) net)) ! i
            = fmul (Fin cap) (if net ! i = NaN then NaN
                 else fprod (map (fadd (Fin 1)) (dropna (take (Suc i) net))))"
    using i by (simp add: cumprod_nth dropna_map_add_one take_map)
  have a: "net ! i = NaN \<longrightarrow> map (fmul (Fin cap)) (cumprod (map (fadd (Fin 1)) net)) ! i = NaN"
    by (simp add: pv)
  have b: "net ! i \<noteq> NaN \<longrightarrow> map (fmul (Fin cap)) (cumprod (map (fadd (Fin 1)) net)) ! i
        = fmul (Fin cap) (fprod (map (fadd (Fin 1)) (dropna (take (Suc i) net))))"
    by (simp add: pv)
  have d: "1 \<le> i \<and> (\<forall>k. 1 \<le> k \<and> k \<le> i \<longrightarrow> (\<exists>r. net ! k = Fin r))
        \<longrightarrow> map (fmul (Fin cap)) (cumprod (map (fadd (Fin 1)) net)) ! i
            = Fin (cap * (\<Prod>k = 1..i. 1 + real_of (net ! k)))"
  proof
    assume h: "1 \<le> i \<and> (\<forall>k. 1 \<le> k \<and> k \<le> i \<longrightarrow> (\<exists>r. net ! k = Fin r))"
    then have "net ! i \<noteq> NaN" by force
    moreover have "fprod (map (fadd (Fin 1)) (dropna (take (Suc i) net)))
         = Fin (\<Prod>k = 1..i. 1 + real_of (net ! k))"
      using fprod_finite_rows[OF i(1) net0] h by blast
    ultimately show "map (fmul (Fin cap)) (cumprod (map (fadd (Fin 1)) net)) ! i
            = Fin (cap * (\<Prod>k = 1..i. 1 + real_of (net ! k)))"
      by (simp add: pv)
  qed
  show ?thesis
  proof (rule exI[of _ res], unfold c, intro conjI)
    show "calculate_returns data cap comm = Inr res" by (rule res)
  qed (rule a b d)+
qed

lemma calculate_returns_example:
  "map_sum id (\<lambda>res. (col_of res Strategy_Returns_Net, col_of res Portfolio_Value))
     (calculate_returns
        \<lparr>Close = [10, 10, 10, 20, 10],
         cols = [Position \<mapsto> [Fin 0, Fin 0, Fin 0, Fin 1, Fin 1]]\<rparr> 10000 (1 / 1000))
   = Inr ([NaN, Fin 0, Fin 0, Fin 0, Fin (- (501 / 1000))],
          [NaN, Fin 10000, Fin 10000, Fin 10000, Fin 4990])"
  by code_simp

lemma nth_of_take_eq: "take n xs = take n ys \<Longrightarrow> j < n \<Longrightarrow> xs ! j = ys ! j"
  by (metis nth_take)

lemma take_eq_mono: "take n xs = take n ys \<Longrightarrow> m \<le> n \<Longrightarrow> take m xs = take m ys"
  by (metis min.absorb1 take_take)

lemma strategy_return_net_cong:
  assumes "take i p1 = take i p2" "take (Suc i) c1 = take (Suc i) c2"
  shows "strategy_return_net p1 c1 comm i = strategy_return_net p2 c2 comm i"
proof -
  have p: "p1 ! j = p2 ! j" if "j < i" for j
    using assms(1) that by (rule nth_of_take_eq)
  have c: "c1 ! j = c2 ! j" if "j \<le> i" for j
    using assms(2) that by (auto intro: nth_of_take_eq)
  have pl: "position_lagged p1 j = position_lagged p2 j" if "j \<le> i" for j
    using that p[of "j - 1"] by (cases j) (auto simp: position_lagged_def)
  have "position_change p1 i = position_change p2 i"
    using pl[of i] pl[of "i - 1"] by (simp add: position_change_def)
  moreover have "market_return c1 i = market_return c2 i"
    using c[of i] c[of "i - 1"] by (simp add: market_return_def)
  ultimately show ?thesis
    using pl[of i] by (simp add: strategy_return_net_def)
qed

lemma calculate_returns_net_nth:
  assumes "cols data Position = Some p" "length p = nrows data" "i < nrows data"
    "calculate_returns data cap comm = Inr res"
  shows "col_of res Strategy_Returns_Net ! i = strategy_return_net p (Close data) comm i"
proof -
  from calculate_returns_cols[OF assms(1), of cap comm] assms(4)
  have "col_of res Strategy_Returns_Net = net_column p (Close data) comm"
    by (auto simp: col_of_Some)
  then show ?thesis
    using assms(2,3) by (simp add: net_column_nth nrows_def)
qed

lemma net_no_look_ahead:
  assumes "cols d1 Position = Some p1" "length p1 = nrows d1"
    and "cols d2 Position = Some p2" "length p2 = nrows d2"
    and "calculate_returns d1 cap comm = Inr r1" "calculate_returns d2 cap comm = Inr r2"
    and "i < nrows d1" "i < nrows d2"
    and "take i p1 = take i p2" "take (Suc i) (Close d1) = take (Suc i) (Close d2)"
    and "k \<le> i"
  shows "col_of r1 Strategy_Returns_Net ! k = col_of r2 Strategy_Returns_Net ! k"
proof -
  have k: "k < nrows d1" "k < nrows d2" using assms(7,8,11) by simp_all
  have "take k p1 = take k p2" "take (Suc k) (Close d1) = take (Suc k) (Close d2)"
    using assms(9,10,11) by (auto intro: take_eq_mono)
  then have "strategy_return_net p1 (Close d1) comm k = strategy_return_net p2 (Close d2) comm k"
    by (rule strategy_return_net_cong)
  then show ?thesis
    using calculate_returns_net_nth[OF assms(1,2) k(1) assms(5)]
      calculate_returns_net_nth[OF assms(3,4) k(2) assms(6)] by simp
qed

lemma rolling_mean_cong:
  assumes "take (Suc k) xs = take (Suc k) ys" "k < length xs" "k < length ys"
  shows "rolling_mean lib w xs ! k = rolling_mean lib w ys ! k"
  using assms by (simp add: rolling_mean_nth)

lemma crossing_cong:
  assumes "take (Suc k) xs = take (Suc k) ys" "k < length xs" "k < length ys"
  shows "golden_at (rolling_mean lib ws xs) (rolling_mean lib wl xs) k
       = golden_at (rolling_mean lib ws ys) (rolling_mean lib wl ys) k"
    and "death_at (rolling_mean lib ws xs) (rolling_mean lib wl xs) k
       = death_at (rolling_mean lib ws ys) (rolling_mean lib wl ys) k"
proof -
  have "take (Suc (k - 1)) xs = take (Suc (k - 1)) ys"
    using assms(1) by (rule take_eq_mono) simp
  then have p: "rolling_mean lib w xs ! (k - 1) = rolling_mean lib w ys ! (k - 1)" for w
    using assms(2,3) by (intro rolling_mean_cong) simp_all
  have q: "rolling_mean lib w xs ! k = rolling_mean lib w ys ! k" for w
    using assms by (rule rolling_mean_cong)
  show "golden_at (rolling_mean lib ws xs) (rolling_mean lib wl xs) k
       = golden_at (rolling_mean lib ws ys) (rolling_mean lib wl ys) k"
    "death_at (rolling_mean lib ws xs) (rolling_mean lib wl xs) k
       = death_at (rolling_mean lib ws ys) (rolling_mean lib wl ys) k"
    by (simp_all only: golden_at_def death_at_def p q)
qed

lemma take_position_loop:
  "take n (position_loop cur ss) = position_loop cur (take n ss)"
proof (induction ss arbitrary: cur n)
  case Nil
  then show ?case by simp
next
  case (Cons s ss)
  then show ?case by (cases n) (simp_all add: Let_def)
qed

lemma position_prefix:
  assumes "i < nrows d1" "i < nrows d2"
    and "take (Suc i) (Close d1) = take (Suc i) (Close d2)"
  shows "take (Suc i) (col_of (generate_signals lib self d1) Position)
       = take (Suc i) (col_of (generate_signals lib self d2) Position)"
proof -
  define s1 where "s1 = col_of (generate_signals lib self d1) Signal"
  define s2 where "s2 = col_of (generate_signals lib self d2) Signal"
  have len: "length s1 = nrows d1" "length s2 = nrows d2"
    by (simp_all add: s1_def s2_def length_Signal)
  have "take (Suc i) s1 = take (Suc i) s2"
  proof (rule nth_equalityI)
    show "length (take (Suc i) s1) = length (take (Suc i) s2)"
      using assms(1,2) len by simp
  next
    fix k assume "k < length (take (Suc i) s1)"
    then have k: "k \<le> i" by simp
    then have kk: "k < nrows d1" "k < nrows d2" using assms(1,2) by simp_all
    then have kl: "k < length (Close d1)" "k < length (Close d2)"
      by (simp_all add: nrows_def)
    have "take (Suc k) (Close d1) = take (Suc k) (Close d2)"
      using assms(3) k by (auto intro: take_eq_mono)
    from crossing_cong[OF this kl, of lib]
    have "s1 ! k = s2 ! k"
      unfolding s1_def s2_def
      by (simp add: generate_signals_Signal_nth[OF kk(1)]
          generate_signals_Signal_nth[OF kk(2)])
    then show "take (Suc i) s1 ! k = take (Suc i) s2 ! k"
      using k by simp
  qed
  then show ?thesis
    by (simp add: generate_signals_Position_col take_position_loop flip: s1_def s2_def)
qed

lemma backtest_no_look_ahead:
  assumes "MovingAverageStrategy_init short long = Inr self"
    and "i < nrows d1" "i < nrows d2"
    and "take (Suc i) (Close d1) = take (Suc i) (Close d2)"
    and "backtest lib self d1 cap comm = Inr r1" "backtest lib self d2 cap comm = Inr r2"
    and "k \<le> i"
  shows "col_of (equity_curve r1) Strategy_Returns_Net ! k
       = col_of (equity_curve r2) Strategy_Returns_Net ! k"
proof -
  have ne: "Close d1 \<noteq> []" "Close d2 \<noteq> []"
    using assms(2,3) by (auto simp: nrows_def)
  from backtest_nonempty[OF ne(1), of lib self cap comm] assms(5) obtain p1 where
    1: "cols (generate_signals lib self d1) Position = Some p1" "length p1 = nrows d1"
       "calculate_returns (generate_signals lib self d1) cap comm = Inr (equity_curve r1)"
    by auto
  from backtest_nonempty[OF ne(2), of lib self cap comm] assms(6) obtain p2 where
    2: "cols (generate_signals lib self d2) Position = Some p2" "length p2 = nrows d2"
       "calculate_returns (generate_signals lib self d2) cap comm = Inr (equity_curve r2)"
    by auto
  have "take (Suc i) p1 = take (Suc i) p2"
    using position_prefix[OF assms(2,3,4), of lib self] 1(1) 2(1) by (simp add: col_of_Some)
  then have t: "take i p1 = take i p2"
    by (rule take_eq_mono) simp
  show ?thesis
    by (rule net_no_look_ahead[where ?d1.0 = "generate_signals lib self d1"
          and ?d2.0 = "generate_signals lib self d2" and i = i and cap = cap and comm = comm,
          OF 1(1) _ 2(1) _ 1(3) 2(3) _ _ t _ assms(7)])
       (use 1(2) 2(2) assms(2,3,4) in simp_all)
qed

theorem cumulative_return_identity_witness:
  "cols \<lparr>Close = [10, 10, 10, 20, 10],
         cols = [Position \<mapsto> [Fin 0, Fin 0, Fin 0, Fin 1, Fin 1]]\<rparr> Position
     = Some [Fin 0, Fin 0, Fin 0, Fin 1, Fin 1]
   \<and> length [Fin 0, Fin 0, Fin 0, Fin 1, Fin 1]
       = nrows \<lparr>Close = [10, 10, 10, 20, 10],
                cols = [Position \<mapsto> [Fin 0, Fin 0, Fin 0, Fin 1, Fin 1]]\<rparr>
   \<and> 4 < nrows \<lparr>Close = [10, 10, 10, 20, 10],
                cols = [Position \<mapsto> [Fin 0, Fin 0, Fin 0, Fin 1, Fin 1]]\<rparr>
   \<and> (\<exists>res. calculate_returns
               \<lparr>Close = [10, 10, 10, 20, 10],
                cols = [Position \<mapsto> [Fin 0, Fin 0, Fin 0, Fin 1, Fin 1]]\<rparr>
               10000 (1 / 1000) = Inr res
          \<and> col_of res Strategy_Returns_Net ! 4 \<noteq> NaN
          \<and> col_of res Portfolio_Value ! 4
              = Fin (10000 * (\<Prod>k = 1..4. 1 + real_of (col_of res Strategy_Returns_Net ! k)))
          \<and> col_of res Portfolio_Value ! 4 = Fin 4990)"
proof -
  define D where "D = \<lparr>Close = [10, 10, 10, 20, 10 :: real],
                       cols = [Position \<mapsto> [Fin 0, Fin 0, Fin 0, Fin 1, Fin 1]]\<rparr>"
  have h1: "cols D Position = Some [Fin 0, Fin 0, Fin 0, Fin 1, Fin 1]"
    by (simp add: D_def)
  have h2: "length [Fin 0, Fin 0, Fin 0, Fin 1, Fin 1] = nrows D"
    by (simp add: D_def nrows_def)
  have h3: "4 < nrows D"
    by (simp add: D_def nrows_def)
  from cumulative_return_identity[OF h1 h2 h3, of 10000 "1 / 1000"] obtain res where
    res: "calculate_returns D 10000 (1 / 1000) = Inr res"
    and imp: "1 \<le> (4::nat) \<and> (\<forall>k. 1 \<le> k \<and> k \<le> 4
                     \<longrightarrow> (\<exists>r. col_of res Strategy_Returns_Net ! k = Fin r))
          \<longrightarrow> col_of res Portfolio_Value ! 4
              = Fin (10000 * (\<Prod>k = 1..4. 1 + real_of (col_of res Strategy_Returns_Net ! k)))"
    by blast
  have cols: "col_of res Strategy_Returns_Net = [NaN, Fin 0, Fin 0, Fin 0, Fin (- (501 / 1000))]"
    "col_of res Portfolio_Value = [NaN, Fin 10000, Fin 10000, Fin 10000, Fin 4990]"
    using calculate_returns_example res by (simp_all add: D_def)
  have fin: "\<forall>k. 1 \<le> k \<and> k \<le> 4 \<longrightarrow> (\<exists>r. col_of res Strategy_Returns_Net ! k = Fin r)"
  proof (intro allI impI)
    fix k :: nat assume "1 \<le> k \<and> k \<le> 4"
    then have "k = 1 \<or> k = 2 \<or> k = 3 \<or> k = 4" by auto
    then show "\<exists>r. col_of res Strategy_Returns_Net ! k = Fin r"
      by (auto simp: cols)
  qed
  have "col_of res Portfolio_Value ! 4
      = Fin (10000 * (\<Prod>k = 1..4. 1 + real_of (col_of res Strategy_Returns_Net ! k)))"
    using imp fin by simp
  moreover have "col_of res Strategy_Returns_Net ! 4 \<noteq> NaN"
    "col_of res Portfolio_Value ! 4 = Fin 4990"
    by (simp_all add: cols)
  ultimately show ?thesis
    using h1 h2 h3 res unfolding D_def by blast
qed

text \<open>
  C3. No look-ahead. (1) In \<open>_calculate_returns\<close> the net return of row \<open>k\<close> is
  determined by the positions of the rows before \<open>k\<close> and the closing prices of the
  rows up to \<open>k\<close>: two tables whose Position columns agree on the rows before \<open>i\<close> and
  whose prices agree on the rows up to \<open>i\<close> get the same net return on every row up to
  \<open>i\<close>, whatever the later rows hold. (2) The same for whole backtests of a constructed
  strategy: two price tables that agree on the rows up to \<open>i\<close> and differ afterwards
  get the same net return on every row up to \<open>i\<close>.
\<close>

theorem no_look_ahead:
  "(\<forall>d1 d2 p1 p2 r1 r2.
      cols d1 Position = Some p1 \<and> length p1 = nrows d1
      \<and> cols d2 Position = Some p2 \<and> length p2 = nrows d2
      \<and> calculate_returns d1 cap comm = Inr r1 \<and> calculate_returns d2 cap comm = Inr r2
      \<and> i < nrows d1 \<and> i < nrows d2
      \<and> take i p1 = take i p2 \<and> take (Suc i) (Close d1) = take (Suc i) (Close d2)
      \<longrightarrow> (\<forall>k\<le>i. col_of r1 Strategy_Returns_Net ! k = col_of r2 Strategy_Returns_Net ! k))
   \<and> (\<forall>short long self d1 d2 r1 r2.
      MovingAverageStrategy_init short long = Inr self
      \<and> i < nrows d1 \<and> i < nrows d2
      \<and> take (Suc i) (Close d1) = take (Suc i) (Close d2)
      \<and> backtest lib self d1 cap comm = Inr r1 \<and> backtest lib self d2 cap comm = Inr r2
      \<longrightarrow> (\<forall>k\<le>i. col_of (equity_curve r1) Strategy_Returns_Net ! k
                  = col_of (equity_curve r2) Strategy_Returns_Net ! k))"
proof (intro conjI allI impI)
  fix d1 d2 p1 p2 r1 r2 k
  assume "cols d1 Position = Some p1 \<and> length p1 = nrows d1
      \<and> cols d2 Position = Some p2 \<and> length p2 = nrows d2
      \<and> calculate_returns d1 cap comm = Inr r1 \<and> calculate_returns d2 cap comm = Inr r2
      \<and> i < nrows d1 \<and> i < nrows d2
      \<and> take i p1 = take i p2 \<and> take (Suc i) (Close d1) = take (Suc i) (Close d2)"
    and "k \<le> i"
  then show "col_of r1 Strategy_Returns_Net ! k = col_of r2 Strategy_Returns_Net ! k"
    using net_no_look_ahead[of d1 p1 d2 p2 cap comm r1 r2 i k] by blast
next
  fix short long self d1 d2 r1 r2 k
  assume "MovingAverageStrategy_init short long = Inr self
      \<and> i < nrows d1 \<and> i < nrows d2
      \<and> take (Suc i) (Close d1) = take (Suc i) (Close d2)
      \<and> backtest lib self d1 cap comm = Inr r1 \<and> backtest lib self d2 cap comm = Inr r2"
    and "k \<le> i"
  then show "col_of (equity_curve r1) Strategy_Returns_Net ! k
                  = col_of (equity_curve r2) Strategy_Returns_Net ! k"
    using backtest_no_look_ahead[of short long self i d1 d2 lib cap comm r1 r2 k] by blast
qed

lemma backtest_Inr_projr:
  "Close data \<noteq> [] \<Longrightarrow>
   backtest lib self data cap comm = Inr (projr (backtest lib self data cap comm))"
  using backtest_nonempty[of data lib self cap comm] by auto

lemma calculate_returns_Inr_projr:
  "cols data Position = Some p \<Longrightarrow>
   calculate_returns data cap comm = Inr (projr (calculate_returns data cap comm))"
  using calculate_returns_cols[of data p cap comm] by auto

theorem no_look_ahead_witness:
  "MovingAverageStrategy_init 2 4 = Inr \<lparr>short_window = 2, long_window = 4\<rparr>
   \<and> take (Suc 4) [10, 10, 10, 20, 10, 5 :: real] = take (Suc 4) [10, 10, 10, 20, 10, 50, 70]
   \<and> col_of (equity_curve (projr (backtest exact_lib \<lparr>short_window = 2, long_window = 4\<rparr>
        \<lparr>Close = [10, 10, 10, 20, 10, 5], cols = Map.empty\<rparr> 10000 (1 / 1000))))
        Strategy_Returns_Net ! 4
     = col_of (equity_curve (projr (backtest exact_lib \<lparr>short_window = 2, long_window = 4\<rparr>
        \<lparr>Close = [10, 10, 10, 20, 10, 50, 70], cols = Map.empty\<rparr> 10000 (1 / 1000))))
        Strategy_Returns_Net ! 4
   \<and> col_of (projr (calculate_returns
        \<lparr>Close = [10, 10, 10, 20, 10, 5],
         cols = [Position \<mapsto> [Fin 0, Fin 0, Fin 0, Fin 1, Fin 1, Fin 0]]\<rparr> 10000 (1 / 1000)))
        Strategy_Returns_Net ! 4
     = col_of (projr (calculate_returns
        \<lparr>Close = [10, 10, 10, 20, 10, 50, 70],
         cols = [Position \<mapsto> [Fin 0, Fin 0, Fin 0, Fin 1, Fin 0, Fin 1, Fin 1]]\<rparr>
         10000 (1 / 1000)))
        Strategy_Returns_Net ! 4"
proof -
  define S where "S = \<lparr>short_window = 2, long_window = 4\<rparr>"
  define D1 where "D1 = \<lparr>Close = [10, 10, 10, 20, 10, 5 :: real], cols = Map.empty\<rparr>"
  define D2 where "D2 = \<lparr>Close = [10, 10, 10, 20, 10, 50, 70 :: real], cols = Map.empty\<rparr>"
  define E1 where "E1 = \<lparr>Close = [10, 10, 10, 20, 10, 5 :: real],
         cols = [Position \<mapsto> [Fin 0, Fin 0, Fin 0, Fin 1, Fin 1, Fin 0]]\<rparr>"
  define E2 where "E2 = \<lparr>Close = [10, 10, 10, 20, 10, 50, 70 :: real],
         cols = [Position \<mapsto> [Fin 0, Fin 0, Fin 0, Fin 1, Fin 0, Fin 1, Fin 1]]\<rparr>"
  have h0: "MovingAverageStrategy_init 2 4 = Inr S"
    by (simp add: MovingAverageStrategy_init_def S_def)
  have h1: "4 < nrows D1" "4 < nrows D2" "4 < nrows E1" "4 < nrows E2"
    by (simp_all add: D1_def D2_def E1_def E2_def nrows_def)
  have h2: "take (Suc 4) (Close D1) = take (Suc 4) (Close D2)"
    "take (Suc 4) (Close E1) = take (Suc 4) (Close E2)"
    by (simp_all add: D1_def D2_def E1_def E2_def)
  have h3: "backtest exact_lib S D1 10000 (1 / 1000) = Inr (projr (backtest exact_lib S D1 10000 (1 / 1000)))"
    "backtest exact_lib S D2 10000 (1 / 1000) = Inr (projr (backtest exact_lib S D2 10000 (1 / 1000)))"
    by (rule backtest_Inr_projr, simp add: D1_def D2_def)+
  have p: "cols E1 Position = Some [Fin 0, Fin 0, Fin 0, Fin 1, Fin 1, Fin 0]"
    "cols E2 Position = Some [Fin 0, Fin 0, Fin 0, Fin 1, Fin 0, Fin 1, Fin 1]"
    by (simp_all add: E1_def E2_def)
  have pl: "length [Fin 0, Fin 0, Fin 0, Fin 1, Fin 1, Fin 0] = nrows E1"
    "length [Fin 0, Fin 0, Fin 0, Fin 1, Fin 0, Fin 1, Fin 1] = nrows E2"
    by (simp_all add: E1_def E2_def nrows_def)
  have pt: "take 4 [Fin 0, Fin 0, Fin 0, Fin 1, Fin 1, Fin 0]
          = take 4 [Fin 0, Fin 0, Fin 0, Fin 1, Fin 0, Fin 1, Fin 1]"
    by simp
  have h4: "calculate_returns E1 10000 (1 / 1000)
              = Inr (projr (calculate_returns E1 10000 (1 / 1000)))"
    "calculate_returns E2 10000 (1 / 1000)
              = Inr (projr (calculate_returns E2 10000 (1 / 1000)))"
    by (rule calculate_returns_Inr_projr, rule p)+
  note inst = no_look_ahead[of 10000 "1 / 1000" 4]
  from inst have a: "col_of (projr (calculate_returns E1 10000 (1 / 1000))) Strategy_Returns_Net ! 4
     = col_of (projr (calculate_returns E2 10000 (1 / 1000))) Strategy_Returns_Net ! 4"
    using p pl pt h1 h2 h4 by blast
  from inst have b: "col_of (equity_curve (projr (backtest exact_lib S D1 10000 (1 / 1000))))
        Strategy_Returns_Net ! 4
     = col_of (equity_curve (projr (backtest exact_lib S D2 10000 (1 / 1000)))) Strategy_Returns_Net ! 4"
    using h0 h1 h2 h3 by blast
  show ?thesis
    using a b h0 unfolding S_def D1_def D2_def E1_def E2_def by simp
qed

section \<open>Parameters and short tables\<close>

lemma fdiv_NaN_right [simp]: "fdiv x NaN = NaN"
  by (cases x) simp_all

lemma singleton_nth: "length xs = 1 \<Longrightarrow> xs = [xs ! 0]"
  by (cases xs) auto

lemma backtest_one_row:
  assumes "length (Close data) = 1"
  shows "\<exists>r. backtest lib self data cap comm = Inr r
     \<and> total_return (metrics_of r) = NaN
     \<and> buyhold_return (metrics_of r) = Fin 0
     \<and> excess_return (metrics_of r) = NaN
     \<and> volatility (metrics_of r) = NaN
     \<and> sharpe_ratio (metrics_of r) = NaN
     \<and> max_drawdown (metrics_of r) = NaN
     \<and> win_rate (metrics_of r) = Fin 0
     \<and> total_trades (metrics_of r) = 0"
proof -
  have ne: "Close data \<noteq> []" using assms by auto
  from backtest_nonempty[OF ne, of lib self cap comm] obtain p res m where
    p: "cols (generate_signals lib self data) Position = Some p" "length p = nrows data"
    and res: "calculate_returns (generate_signals lib self data) cap comm = Inr res"
    and m: "calculate_metrics lib res res = Inr m"
    and bt: "backtest lib self data cap comm
         = Inr \<lparr>equity_curve = res, metrics_of = m,
                initial_capital_of = cap, commission_of = comm\<rparr>"
    by blast
  define net where "net = net_column p (Close data) comm"
  define bh where "bh = fillna (Fin 0) (pct_change (Close data))"
  from calculate_returns_cols[OF p(1), of cap comm] res
  have c: "cols res Strategy_Returns_Net = Some net"
    "cols res BuyHold_Returns = Some bh"
    "cols res Cumulative_Returns = Some (cumprod (map (fadd (Fin 1)) net))"
    "cols res BuyHold_Cumulative = Some (cumprod (map (fadd (Fin 1)) bh))"
    "cols res Portfolio_Value = Some (map (fmul (Fin cap)) (cumprod (map (fadd (Fin 1)) net)))"
    by (auto simp: net_def bh_def)
  have lp: "length p = 1" using p(2) assms by (simp add: nrows_def)
  have "length net = 1" using lp assms by (simp add: net_def)
  moreover have "net ! 0 = NaN"
    using lp assms unfolding net_def
    by (simp add: net_column_nth strategy_return_net_def market_return_def)
  ultimately have net: "net = [NaN]"
    using singleton_nth[of net] by simp
  have "length bh = 1" using assms by (simp add: bh_def)
  moreover have "bh ! 0 = Fin 0"
    using assms by (simp add: bh_def fillna_def pct_change_nth)
  ultimately have bh: "bh = [Fin 0]"
    using singleton_nth[of bh] by simp
  have cum: "cumprod (map (fadd (Fin 1)) net) = [NaN]"
    "cumprod (map (fadd (Fin 1)) bh) = [Fin 1]"
    by (simp_all add: net bh cumprod_def)
  from calculate_metrics_Inr[OF c(1,2,3,4,5), of lib res] m cum
  have "total_return m = NaN \<and> buyhold_return m = Fin 0 \<and> excess_return m = NaN
     \<and> volatility m = NaN \<and> sharpe_ratio m = NaN \<and> max_drawdown m = NaN
     \<and> win_rate m = Fin 0 \<and> total_trades m = 0"
    by (simp add: net dropna_def series_std_def series_mean_def calculate_sharpe_ratio_def
        feq_def calculate_max_drawdown_def expanding_max_def series_min_def fsub_def Let_def)
  then show ?thesis using bt by simp
qed

lemma backtest_fails_iff:
  "isl (backtest lib self data cap comm) \<longleftrightarrow> Close data = []"
proof (cases "Close data = []")
  case True
  then show ?thesis by (simp add: backtest_empty)
next
  case False
  from backtest_nonempty[OF False, of lib self cap comm] show ?thesis
    using False by auto
qed

lemma backtest_error:
  "backtest lib self data cap comm = Inl e \<Longrightarrow> e = IndexError"
  using backtest_fails_iff[of lib self data cap comm] backtest_empty[of data lib self cap comm]
  by (cases "Close data = []") auto

text \<open>
  C1 (as amended). Constructing a strategy fails, with a ValueError, exactly when
  \<open>short_window \<ge> long_window\<close> or \<open>short_window < 2\<close>, and no price series is
  involved in that. \<open>backtest\<close> checks neither the initial capital nor the
  commission: whatever their values, it fails exactly on a table without rows, with an
  IndexError, and computes a result on every other table.
\<close>

theorem parameter_validation:
  "MovingAverageStrategy_init short long
     = (if long \<le> short \<or> short < 2 then Inl ValueError
        else Inr \<lparr>short_window = short, long_window = long\<rparr>)
   \<and> (isl (backtest lib self data cap comm) \<longleftrightarrow> Close data = [])
   \<and> (isl (backtest lib self data cap comm) \<longrightarrow> backtest lib self data cap comm = Inl IndexError)"
proof (intro conjI)
  show "MovingAverageStrategy_init short long
     = (if long \<le> short \<or> short < 2 then Inl ValueError
        else Inr \<lparr>short_window = short, long_window = long\<rparr>)"
    by (simp add: MovingAverageStrategy_init_def)
  show "isl (backtest lib self data cap comm) \<longleftrightarrow> Close data = []"
    by (rule backtest_fails_iff)
  show "isl (backtest lib self data cap comm) \<longrightarrow> backtest lib self data cap comm = Inl IndexError"
    by (simp add: backtest_fails_iff backtest_empty)
qed

theorem parameter_validation_witness:
  "MovingAverageStrategy_init 5 3 = Inl ValueError
   \<and> MovingAverageStrategy_init 1 3 = Inl ValueError
   \<and> MovingAverageStrategy_init 2 4 = Inr \<lparr>short_window = 2, long_window = 4\<rparr>
   \<and> isl (backtest exact_lib \<lparr>short_window = 2, long_window = 4\<rparr>
             \<lparr>Close = [], cols = Map.empty\<rparr> 0 2)
   \<and> backtest exact_lib \<lparr>short_window = 2, long_window = 4\<rparr>
             \<lparr>Close = [], cols = Map.empty\<rparr> 0 2 = Inl IndexError
   \<and> \<not> isl (backtest exact_lib \<lparr>short_window = 2, long_window = 4\<rparr>
             \<lparr>Close = [10, 11, 12, 13], cols = Map.empty\<rparr> 0 2)"
  using parameter_validation[of 5 3 exact_lib "\<lparr>short_window = 2, long_window = 4\<rparr>"
      "\<lparr>Close = [], cols = Map.empty\<rparr>" 0 2]
    parameter_validation[of 1 3 exact_lib "\<lparr>short_window = 2, long_window = 4\<rparr>"
      "\<lparr>Close = [10, 11, 12, 13], cols = Map.empty\<rparr>" 0 2]
    parameter_validation[of 2 4 exact_lib "\<lparr>short_window = 2, long_window = 4\<rparr>"
      "\<lparr>Close = [10, 11, 12, 13], cols = Map.empty\<rparr>" 0 2]
  by simp

theorem unchecked_capital_and_commission_counterexample:
  "\<not> isl (backtest exact_lib \<lparr>short_window = 2, long_window = 4\<rparr>
            \<lparr>Close = [10, 11, 12, 13], cols = Map.empty\<rparr> 0 2)
   \<and> \<not> isl (backtest exact_lib \<lparr>short_window = 2, long_window = 4\<rparr>
            \<lparr>Close = [10, 11, 12, 13], cols = Map.empty\<rparr> (- 5) (- 1))"
  by (simp add: backtest_fails_iff)

text \<open>
  C2 (as amended). \<open>backtest\<close> raises no error of its own on a short series. On a
  price series of length 1 it returns normally: total return, excess return,
  volatility, Sharpe ratio and maximum drawdown are NaN, the buy-and-hold return is 0,
  the win rate is 0 and the trade count is 0. On an empty series it fails with the
  IndexError of reading the last cumulative return.
\<close>

theorem backtest_on_short_series:
  "(length (Close data) = 0 \<longrightarrow> backtest lib self data cap comm = Inl IndexError)
   \<and> (length (Close data) = 1 \<longrightarrow>
        (\<exists>r. backtest lib self data cap comm = Inr r
           \<and> total_return (metrics_of r) = NaN
           \<and> buyhold_return (metrics_of r) = Fin 0
           \<and> excess_return (metrics_of r) = NaN
           \<and> volatility (metrics_of r) = NaN
           \<and> sharpe_ratio (metrics_of r) = NaN
           \<and> max_drawdown (metrics_of r) = NaN
           \<and> win_rate (metrics_of r) = Fin 0
           \<and> total_trades (metrics_of r) = 0))"
  using backtest_empty[of data lib self cap comm] backtest_one_row[of data lib self cap comm]
  by simp

theorem backtest_on_short_series_witness:
  "length (Close \<lparr>Close = [], cols = Map.empty\<rparr>) = 0
   \<and> backtest exact_lib \<lparr>short_window = 2, long_window = 4\<rparr>
        \<lparr>Close = [], cols = Map.empty\<rparr> 10000 (1 / 1000) = Inl IndexError
   \<and> length (Close \<lparr>Close = [10], cols = Map.empty\<rparr>) = 1
   \<and> (\<exists>r. backtest exact_lib \<lparr>short_window = 2, long_window = 4\<rparr>
             \<lparr>Close = [10], cols = Map.empty\<rparr> 10000 (1 / 1000) = Inr r
          \<and> total_return (metrics_of r) = NaN \<and> sharpe_ratio (metrics_of r) = NaN)"
proof -
  have h0: "length (Close \<lparr>Close = [], cols = Map.empty\<rparr>) = 0" by simp
  have h1: "length (Close \<lparr>Close = [10], cols = Map.empty\<rparr>) = 1" by simp
  from backtest_on_short_series[of "\<lparr>Close = [], cols = Map.empty\<rparr>" exact_lib
      "\<lparr>short_window = 2, long_window = 4\<rparr>" 10000 "1 / 1000"] h0
  have a: "backtest exact_lib \<lparr>short_window = 2, long_window = 4\<rparr>
        \<lparr>Close = [], cols = Map.empty\<rparr> 10000 (1 / 1000) = Inl IndexError"
    by blast
  from backtest_on_short_series[of "\<lparr>Close = [10], cols = Map.empty\<rparr>" exact_lib
      "\<lparr>short_window = 2, long_window = 4\<rparr>" 10000 "1 / 1000"] h1
  have b: "\<exists>r. backtest exact_lib \<lparr>short_window = 2, long_window = 4\<rparr>
             \<lparr>Close = [10], cols = Map.empty\<rparr> 10000 (1 / 1000) = Inr r
          \<and> total_return (metrics_of r) = NaN \<and> sharpe_ratio (metrics_of r) = NaN"
    by blast
  show ?thesis using h0 h1 a b by blast
qed

theorem one_row_backtest_counterexample:
  "\<not> isl (backtest exact_lib \<lparr>short_window = 2, long_window = 4\<rparr>
            \<lparr>Close = [10], cols = Map.empty\<rparr> 10000 (1 / 1000))
   \<and> total_return (metrics_of (projr (backtest exact_lib \<lparr>short_window = 2, long_window = 4\<rparr>
            \<lparr>Close = [10], cols = Map.empty\<rparr> 10000 (1 / 1000)))) = NaN
   \<and> backtest exact_lib \<lparr>short_window = 2, long_window = 4\<rparr>
            \<lparr>Close = [], cols = Map.empty\<rparr> 10000 (1 / 1000) = Inl IndexError"
proof -
  have "length (Close \<lparr>Close = [10], cols = Map.empty\<rparr>) = 1" by simp
  from backtest_one_row[OF this, of exact_lib "\<lparr>short_window = 2, long_window = 4\<rparr>" 10000 "1 / 1000"]
  obtain r where "backtest exact_lib \<lparr>short_window = 2, long_window = 4\<rparr>
            \<lparr>Close = [10], cols = Map.empty\<rparr> 10000 (1 / 1000) = Inr r"
    "total_return (metrics_of r) = NaN" by blast
  then show ?thesis by (simp add: backtest_empty)
qed

section \<open>Sharpe ratio\<close>



section \<open>Maximum drawdown\<close>

lemma fin_or_nan_cases:
  assumes "x = NaN \<or> (\<exists>a. x = Fin a)"
  obtains "x = NaN" | a where "x = Fin a"
  using assms by blast

lemma drawdown_skip_nan:
  assumes "\<forall>x\<in>set xs. x = NaN \<or> (\<exists>a. x = Fin a)"
  shows "dropna (map2 (\<lambda>e p. fdiv (fsub e p) p) xs (expanding_max_from m xs))
       = dropna (map2 (\<lambda>e p. fdiv (fsub e p) p) (map Fin (fin_vals xs))
                   (expanding_max_from m (map Fin (fin_vals xs))))"
  using assms
proof (induction xs arbitrary: m)
  case Nil
  then show ?case by simp
next
  case (Cons x xs)
  have IH: "dropna (map2 (\<lambda>e p. fdiv (fsub e p) p) xs (expanding_max_from m' xs))
       = dropna (map2 (\<lambda>e p. fdiv (fsub e p) p) (map Fin (fin_vals xs))
                   (expanding_max_from m' (map Fin (fin_vals xs))))" for m'
    using Cons by simp
  have "x = NaN \<or> (\<exists>a. x = Fin a)" using Cons.prems by simp
  then show ?case
  proof (cases rule: fin_or_nan_cases)
    case 1
    then show ?thesis using IH[of m] by (simp add: dropna_def)
  next
    case (2 a)
    then show ?thesis
      using IH[of "Some (case m of None \<Rightarrow> a | Some b \<Rightarrow> max a b)"]
      by (simp add: dropna_def Let_def)
  qed
qed

lemma expanding_max_from_Some_nth:
  "i < length v \<Longrightarrow>
   expanding_max_from (Some b) (map Fin v) ! i = Fin (Max (insert b (set (take (Suc i) v))))"
proof (induction v arbitrary: b i)
  case Nil
  then show ?case by simp
next
  case (Cons a v)
  show ?case
  proof (cases i)
    case 0
    then show ?thesis by (simp add: Let_def max.commute)
  next
    case (Suc j)
    then have j: "j < length v" using Cons.prems by simp
    then have ne: "set (take (Suc j) v) \<noteq> {}" by (cases v) auto
    have "Max (insert (max a b) (set (take (Suc j) v)))
          = max (max a b) (Max (set (take (Suc j) v)))"
      using ne by simp
    also have "\<dots> = max b (max a (Max (set (take (Suc j) v))))"
      by (simp add: max.assoc max.commute)
    also have "\<dots> = Max (insert b (insert a (set (take (Suc j) v))))"
      using ne by simp
    finally have "Max (insert (max a b) (set (take (Suc j) v)))
          = Max (insert b (insert a (set (take (Suc j) v))))" .
    then show ?thesis
      using Cons.IH[OF j, of "max a b"] Suc by (simp add: Let_def)
  qed
qed

lemma expanding_max_nth:
  assumes "i < length v"
  shows "expanding_max (map Fin v) ! i = Fin (running_max v i)"
proof (cases v)
  case Nil
  then show ?thesis using assms by simp
next
  case (Cons a w)
  show ?thesis
  proof (cases i)
    case 0
    then show ?thesis by (simp add: Cons expanding_max_def running_max_def Let_def)
  next
    case (Suc j)
    then have "j < length w" using assms Cons by simp
    from expanding_max_from_Some_nth[OF this, of a]
    show ?thesis by (simp add: Cons Suc expanding_max_def running_max_def Let_def)
  qed
qed

lemma running_max_ge:
  assumes "j \<le> i" "i < length v"
  shows "v ! j \<le> running_max v i"
proof -
  have "take (Suc i) v ! j = v ! j" "j < length (take (Suc i) v)"
    using assms by simp_all
  then have "v ! j \<in> set (take (Suc i) v)"
    by (metis nth_mem)
  then show ?thesis by (simp add: running_max_def)
qed

lemma running_max_attained:
  assumes "i < length v"
  shows "\<exists>j\<le>i. running_max v i = v ! j"
proof -
  have "set (take (Suc i) v) \<noteq> {}" using assms by (cases v) auto
  then have "Max (set (take (Suc i) v)) \<in> set (take (Suc i) v)"
    by (intro Max_in) simp_all
  then obtain j where "j < length (take (Suc i) v)" "take (Suc i) v ! j = Max (set (take (Suc i) v))"
    by (auto simp: in_set_conv_nth)
  then show ?thesis
    by (intro exI[of _ j]) (auto simp: running_max_def)
qed

lemma foldl_fmin_Fin:
  "foldl fmin (Fin y) (map Fin ys) = Fin (Min (insert y (set ys)))"
proof (induction ys arbitrary: y)
  case Nil
  then show ?case by simp
next
  case (Cons a ys)
  have "fmin (Fin y) (Fin a) = Fin (min y a)"
    by (simp add: fmin_def min_def)
  moreover have "Min (insert (min y a) (set ys)) = Min (insert y (insert a (set ys)))"
  proof (cases "set ys = {}")
    case True
    then show ?thesis by simp
  next
    case False
    then show ?thesis by (simp add: min.assoc)
  qed
  ultimately show ?case
    using Cons.IH[of "min y a"] by simp
qed

lemma series_min_Fin:
  assumes "ws \<noteq> []"
  shows "series_min (map Fin ws) = Fin (Min (set ws))"
proof -
  obtain y ys where ws: "ws = y # ys" using assms by (cases ws) auto
  have "dropna (map Fin ws) = map Fin ws"
    by (induction ws) (simp_all add: dropna_def)
  then show ?thesis
    by (simp add: series_min_def ws foldl_fmin_Fin)
qed

lemma length_expanding_max_from [simp]: "length (expanding_max_from m xs) = length xs"
  by (induction m xs rule: expanding_max_from.induct) (simp_all add: Let_def)

lemma length_expanding_max [simp]: "length (expanding_max xs) = length xs"
  by (simp add: expanding_max_def)

lemma running_max_pos:
  assumes "v \<noteq> []" "0 < hd v" "i < length v"
  shows "0 < running_max v i"
proof -
  have "v ! 0 \<le> running_max v i"
    using assms(3) by (intro running_max_ge) simp_all
  moreover have "v ! 0 = hd v" using assms(1) by (simp add: hd_conv_nth)
  ultimately show ?thesis using assms(2) by simp
qed

lemma drawdown_column_Fin:
  assumes "v \<noteq> []" "0 < hd v"
  shows "map2 (\<lambda>e p. fdiv (fsub e p) p) (map Fin v) (expanding_max (map Fin v))
       = map Fin (map (drawdown_at v) [0..<length v])"
proof (rule nth_equalityI)
  show "length (map2 (\<lambda>e p. fdiv (fsub e p) p) (map Fin v) (expanding_max (map Fin v)))
      = length (map Fin (map (drawdown_at v) [0..<length v]))"
    by simp
next
  fix i
  assume "i < length (map2 (\<lambda>e p. fdiv (fsub e p) p) (map Fin v) (expanding_max (map Fin v)))"
  then have i: "i < length v" by simp
  have "running_max v i \<noteq> 0"
    using running_max_pos[OF assms i] by simp
  then show "map2 (\<lambda>e p. fdiv (fsub e p) p) (map Fin v) (expanding_max (map Fin v)) ! i
           = map Fin (map (drawdown_at v) [0..<length v]) ! i"
    using i by (simp add: expanding_max_nth fsub_def drawdown_at_def)
qed

lemma calculate_max_drawdown_Min:
  assumes "\<forall>x\<in>set pv. x = NaN \<or> (\<exists>a. x = Fin a)"
    and "fin_vals pv \<noteq> []" and "0 < hd (fin_vals pv)"
  shows "calculate_max_drawdown pv
       = Fin (Min (drawdown_at (fin_vals pv) ` {..<length (fin_vals pv)}))"
proof -
  define v where "v = fin_vals pv"
  have ne: "map (drawdown_at v) [0..<length v] \<noteq> []"
    using assms(2) by (simp add: v_def)
  have "dropna (map2 (\<lambda>e p. fdiv (fsub e p) p) pv (expanding_max pv))
      = dropna (map2 (\<lambda>e p. fdiv (fsub e p) p) (map Fin v) (expanding_max (map Fin v)))"
    unfolding expanding_max_def v_def by (rule drawdown_skip_nan[OF assms(1)])
  then have "series_min (map2 (\<lambda>e p. fdiv (fsub e p) p) pv (expanding_max pv))
      = series_min (map2 (\<lambda>e p. fdiv (fsub e p) p) (map Fin v) (expanding_max (map Fin v)))"
    by (simp add: series_min_def)
  also have "\<dots> = series_min (map Fin (map (drawdown_at v) [0..<length v]))"
    using drawdown_column_Fin[of v] assms(2,3) by (simp add: v_def)
  also have "\<dots> = Fin (Min (set (map (drawdown_at v) [0..<length v])))"
    by (rule series_min_Fin[OF ne])
  also have "set (map (drawdown_at v) [0..<length v]) = drawdown_at v ` {..<length v}"
    by (simp add: atLeast0LessThan)
  finally show ?thesis
    by (simp add: calculate_max_drawdown_def Let_def v_def)
qed

lemma drawdown_at_le_zero:
  assumes "v \<noteq> []" "0 < hd v" "i < length v"
  shows "drawdown_at v i \<le> 0" "drawdown_at v i = 0 \<longleftrightarrow> v ! i = running_max v i"
proof -
  have p: "0 < running_max v i" by (rule running_max_pos[OF assms])
  have "v ! i \<le> running_max v i" using assms(3) by (intro running_max_ge) simp_all
  then show "drawdown_at v i \<le> 0"
    using p by (simp add: drawdown_at_def divide_le_0_iff)
  show "drawdown_at v i = 0 \<longleftrightarrow> v ! i = running_max v i"
    using p by (simp add: drawdown_at_def)
qed

lemma Min_drawdown:
  assumes "v \<noteq> []" "0 < hd v"
  shows "Min (drawdown_at v ` {..<length v}) \<le> 0"
    and "Min (drawdown_at v ` {..<length v}) = 0 \<longleftrightarrow> sorted v"
proof -
  let ?S = "drawdown_at v ` {..<length v}"
  have fin: "finite ?S" by simp
  have ne: "?S \<noteq> {}" using assms(1) by auto
  have le: "x \<le> 0" if "x \<in> ?S" for x
    using that drawdown_at_le_zero(1)[OF assms] by auto
  have "Min ?S \<in> ?S" using fin ne by (rule Min_in)
  then show "Min ?S \<le> 0" by (rule le)
  show "Min ?S = 0 \<longleftrightarrow> sorted v"
  proof
    assume z: "Min ?S = 0"
    have all0: "drawdown_at v i = 0" if "i < length v" for i
    proof -
      have "drawdown_at v i \<in> ?S" using that by simp
      then have "Min ?S \<le> drawdown_at v i" using fin by (intro Min_le)
      moreover have "drawdown_at v i \<le> 0" by (rule drawdown_at_le_zero(1)[OF assms that])
      ultimately show ?thesis using z by simp
    qed
    show "sorted v"
    proof (rule sorted_iff_nth_mono[THEN iffD2], intro allI impI)
      fix j i assume ji: "j \<le> i" and i: "i < length v"
      have "v ! i = running_max v i"
        using all0[OF i] drawdown_at_le_zero(2)[OF assms i] by simp
      then show "v ! j \<le> v ! i"
        using running_max_ge[OF ji i] by simp
    qed
  next
    assume s: "sorted v"
    have all0: "drawdown_at v i = 0" if "i < length v" for i
    proof -
      from running_max_attained[OF that] obtain j where j: "j \<le> i" "running_max v i = v ! j"
        by blast
      have "v ! j \<le> v ! i" using s j(1) that by (simp add: sorted_iff_nth_mono)
      moreover have "v ! i \<le> running_max v i" using that by (intro running_max_ge) simp_all
      ultimately have "v ! i = running_max v i" using j(2) by simp
      then show ?thesis using drawdown_at_le_zero(2)[OF assms that] by simp
    qed
    then have "?S = {0}" using assms(1) by (auto simp: image_def)
    then show "Min ?S = 0" by simp
  qed
qed

text \<open>
  C8 (as amended). Drawdown bound: for a portfolio-value series whose entries are
  finite or NaN, with at least one finite entry and the first finite entry positive,
  \<open>_calculate_max_drawdown\<close> returns the minimum over the finite rows of
  \<open>(value - running maximum) / running maximum\<close>; this number is at most 0, and it
  is 0 exactly when the finite entries are non-decreasing.
\<close>

theorem max_drawdown_bound:
  assumes "\<forall>x\<in>set pv. x = NaN \<or> (\<exists>a. x = Fin a)"
    and "fin_vals pv \<noteq> []" and "0 < hd (fin_vals pv)"
  shows "\<exists>d. calculate_max_drawdown pv = Fin d
     \<and> d = Min (drawdown_at (fin_vals pv) ` {..<length (fin_vals pv)})
     \<and> d \<le> 0
     \<and> (d = 0 \<longleftrightarrow> sorted (fin_vals pv))"
  using calculate_max_drawdown_Min[OF assms] Min_drawdown[OF assms(2,3)]
  by blast

theorem max_drawdown_bound_witness:
  "fin_vals [NaN, Fin 100, Fin 120, Fin 90, Fin 130] \<noteq> []
   \<and> 0 < hd (fin_vals [NaN, Fin 100, Fin 120, Fin 90, Fin 130])
   \<and> calculate_max_drawdown [NaN, Fin 100, Fin 120, Fin 90, Fin 130] = Fin (- (1 / 4))
   \<and> \<not> sorted (fin_vals [NaN, Fin 100, Fin 120, Fin 90, Fin 130])"
proof -
  have h1: "\<forall>x\<in>set [NaN, Fin 100, Fin 120, Fin 90, Fin 130]. x = NaN \<or> (\<exists>a. x = Fin a)"
    by simp
  have h2: "fin_vals [NaN, Fin 100, Fin 120, Fin 90, Fin 130] \<noteq> []" by simp
  have h3: "0 < hd (fin_vals [NaN, Fin 100, Fin 120, Fin 90, Fin 130])" by simp
  have e: "calculate_max_drawdown [NaN, Fin 100, Fin 120, Fin 90, Fin 130] = Fin (- (1 / 4))"
    by code_simp
  from max_drawdown_bound[OF h1 h2 h3] e
  have "\<not> sorted (fin_vals [NaN, Fin 100, Fin 120, Fin 90, Fin 130])"
    by auto
  then show ?thesis using h2 h3 e by blast
qed

theorem max_drawdown_counterexample:
  "calculate_max_drawdown [NaN] = NaN
   \<and> \<not> fle (calculate_max_drawdown [NaN]) (Fin 0)
   \<and> calculate_max_drawdown [Fin (- 1), Fin (- 2)] = Fin 0
   \<and> \<not> sorted [- 1, - 2 :: real]"
  by (simp add: calculate_max_drawdown_def expanding_max_def series_min_def dropna_def
      fsub_def fmin_def Let_def)

section \<open>Which tables a call changes\<close>

lemma generate_signals_cols_other:
  assumes "c \<noteq> Signal" "c \<noteq> Position" "c \<noteq> MA (short_window self)"
    "c \<noteq> MA (long_window self)"
  shows "cols (generate_signals lib self data) c = cols data c"
  using assms by (simp add: generate_signals_def set_col_def Let_def)

lemma generate_signals_adds_Signal:
  "cols (generate_signals lib self data) Signal \<noteq> None"
  by (simp add: generate_signals_def set_col_def Let_def)

text \<open>The object-level backtest computes what the content-level one does.\<close>

lemma backtest_obj_backtest:
  "fst (backtest_obj lib self a cap comm s)
   = map_sum id (\<lambda>r. \<lparr>data_ref = next_free s, equity_curve_ref = next_free s,
                        metrics_ref = metrics_of r\<rparr>)
       (backtest lib self (heap s a) cap comm)"
  by (simp add: backtest_obj_def backtest_def frame_copy_def generate_signals_obj_def
      bind_err_def Let_def split: sum.splits)

lemma backtest_obj_heap:
  "a' \<noteq> next_free s \<Longrightarrow> heap (snd (backtest_obj lib self a cap comm s)) a' = heap s a'"
  by (simp add: backtest_obj_def frame_copy_def generate_signals_obj_def Let_def
      split: sum.splits)

text \<open>
  C9 (as amended). \<open>backtest\<close> leaves every table of the caller unchanged: it works
  on a copy, and the tables of its result are that copy. \<open>generate_signals\<close> does
  change the table it is given: it returns that same table, with the columns Signal and
  Position (and the two moving-average columns) written into it; the closing prices,
  every other column and every other table are unchanged.
\<close>

theorem stage_effects:
  "(\<forall>a' < next_free s. heap (snd (backtest_obj lib self a cap comm s)) a' = heap s a')
   \<and> (\<forall>refs. fst (backtest_obj lib self a cap comm s) = Inr refs
        \<longrightarrow> data_ref refs = next_free s \<and> equity_curve_ref refs = next_free s)
   \<and> fst (generate_signals_obj lib self a s) = a
   \<and> heap (snd (generate_signals_obj lib self a s)) a = generate_signals lib self (heap s a)
   \<and> cols (heap (snd (generate_signals_obj lib self a s)) a) Signal \<noteq> None
   \<and> cols (heap (snd (generate_signals_obj lib self a s)) a) Position \<noteq> None
   \<and> Close (heap (snd (generate_signals_obj lib self a s)) a) = Close (heap s a)
   \<and> (\<forall>c. c \<noteq> Signal \<and> c \<noteq> Position \<and> c \<noteq> MA (short_window self)
           \<and> c \<noteq> MA (long_window self)
        \<longrightarrow> cols (heap (snd (generate_signals_obj lib self a s)) a) c = cols (heap s a) c)
   \<and> (\<forall>a'. a' \<noteq> a \<longrightarrow> heap (snd (generate_signals_obj lib self a s)) a' = heap s a')"
proof (intro conjI allI impI)
  show "heap (snd (backtest_obj lib self a cap comm s)) a' = heap s a'" if "a' < next_free s" for a'
    using that by (intro backtest_obj_heap) simp
  show "data_ref refs = next_free s" "equity_curve_ref refs = next_free s"
    if "fst (backtest_obj lib self a cap comm s) = Inr refs" for refs
    using that unfolding backtest_obj_backtest
    by (cases "backtest lib self (heap s a) cap comm"; auto)+
  show "fst (generate_signals_obj lib self a s) = a"
    by (simp add: generate_signals_obj_def)
  show "heap (snd (generate_signals_obj lib self a s)) a = generate_signals lib self (heap s a)"
    by (simp add: generate_signals_obj_def)
  show "cols (heap (snd (generate_signals_obj lib self a s)) a) Signal \<noteq> None"
    by (simp add: generate_signals_obj_def generate_signals_adds_Signal)
  show "cols (heap (snd (generate_signals_obj lib self a s)) a) Position \<noteq> None"
    using generate_signals_Position_Some[of lib self "heap s a"]
    by (auto simp: generate_signals_obj_def)
  show "Close (heap (snd (generate_signals_obj lib self a s)) a) = Close (heap s a)"
    by (simp add: generate_signals_obj_def)
  show "cols (heap (snd (generate_signals_obj lib self a s)) a) c = cols (heap s a) c"
    if "c \<noteq> Signal \<and> c \<noteq> Position \<and> c \<noteq> MA (short_window self)
           \<and> c \<noteq> MA (long_window self)" for c
    using that by (simp add: generate_signals_obj_def generate_signals_cols_other)
  show "heap (snd (generate_signals_obj lib self a s)) a' = heap s a'" if "a' \<noteq> a" for a'
    using that by (simp add: generate_signals_obj_def)
qed

theorem stage_effects_witness:
  "(0::nat) < next_free \<lparr>heap = \<lambda>_. \<lparr>Close = [10, 11, 12], cols = Map.empty\<rparr>, next_free = 1\<rparr>
   \<and> heap (snd (backtest_obj exact_lib \<lparr>short_window = 2, long_window = 4\<rparr> 0 10000 (1 / 1000)
        \<lparr>heap = \<lambda>_. \<lparr>Close = [10, 11, 12], cols = Map.empty\<rparr>, next_free = 1\<rparr>)) 0
       = \<lparr>Close = [10, 11, 12], cols = Map.empty\<rparr>
   \<and> Returns \<noteq> Signal \<and> Returns \<noteq> Position \<and> Returns \<noteq> MA 2 \<and> Returns \<noteq> MA 4
   \<and> cols (heap (snd (generate_signals_obj exact_lib \<lparr>short_window = 2, long_window = 4\<rparr> 0
        \<lparr>heap = \<lambda>_. \<lparr>Close = [10, 11, 12], cols = Map.empty\<rparr>, next_free = 1\<rparr>)) 0) Returns
       = None
   \<and> (1::nat) \<noteq> 0
   \<and> heap (snd (generate_signals_obj exact_lib \<lparr>short_window = 2, long_window = 4\<rparr> 0
        \<lparr>heap = \<lambda>_. \<lparr>Close = [10, 11, 12], cols = Map.empty\<rparr>, next_free = 1\<rparr>)) 1
       = \<lparr>Close = [10, 11, 12], cols = Map.empty\<rparr>"
proof -
  define S where "S = \<lparr>short_window = 2, long_window = 4\<rparr>"
  define s0 where "s0 = \<lparr>heap = \<lambda>_. \<lparr>Close = [10, 11, 12 :: real], cols = Map.empty\<rparr>,
                          next_free = 1\<rparr>"
  note inst = stage_effects[of s0 exact_lib S 0 10000 "1 / 1000"]
  have h1: "(0::nat) < next_free s0" by (simp add: s0_def)
  have h2: "Returns \<noteq> Signal \<and> Returns \<noteq> Position \<and> Returns \<noteq> MA (short_window S)
            \<and> Returns \<noteq> MA (long_window S)" by simp
  have h3: "(1::nat) \<noteq> 0" by simp
  from inst h1 have a: "heap (snd (backtest_obj exact_lib S 0 10000 (1 / 1000) s0)) 0 = heap s0 0"
    by blast
  from inst h2 have b: "cols (heap (snd (generate_signals_obj exact_lib S 0 s0)) 0) Returns
                        = cols (heap s0 0) Returns"
    by blast
  from inst h3 have c: "heap (snd (generate_signals_obj exact_lib S 0 s0)) 1 = heap s0 1"
    by blast
  show ?thesis
    using a b c h1 unfolding S_def s0_def by simp
qed

theorem generate_signals_mutates_counterexample:
  "heap (snd (generate_signals_obj exact_lib \<lparr>short_window = 2, long_window = 4\<rparr> 0
        \<lparr>heap = \<lambda>_. \<lparr>Close = [10, 11, 12], cols = Map.empty\<rparr>, next_free = 1\<rparr>)) 0
   \<noteq> heap \<lparr>heap = \<lambda>_. \<lparr>Close = [10, 11, 12], cols = Map.empty\<rparr>, next_free = 1\<rparr> 0
   \<and> fst (generate_signals_obj exact_lib \<lparr>short_window = 2, long_window = 4\<rparr> 0
        \<lparr>heap = \<lambda>_. \<lparr>Close = [10, 11, 12], cols = Map.empty\<rparr>, next_free = 1\<rparr>) = 0"
proof -
  have "cols (generate_signals exact_lib \<lparr>short_window = 2, long_window = 4\<rparr>
          \<lparr>Close = [10, 11, 12], cols = Map.empty\<rparr>) Signal \<noteq> None"
    by (rule generate_signals_adds_Signal)
  then have "generate_signals exact_lib \<lparr>short_window = 2, long_window = 4\<rparr>
          \<lparr>Close = [10, 11, 12], cols = Map.empty\<rparr>
        \<noteq> \<lparr>Close = [10, 11, 12], cols = Map.empty\<rparr>"
    by auto
  then show ?thesis
    by (simp add: generate_signals_obj_def)
qed

end
